theory Spec2Isabelle
  imports Complex_Main
begin

chapter \<open>The coverage report pipeline of sonar-coverage-reporter\<close>

text \<open>
  A model of the classifier (\<open>spanish-coverage-classifier.ts\<close>), the filter strategies and
  their builder (\<open>filter-strategies.ts\<close>), the CSV reporter (\<open>papaparse-csv-reporter.ts\<close>)
  and the orchestrator (\<open>default-report-orchestrator.ts\<close>), followed by the properties
  proved of them. Functions keep the names they have in the source. A function that can
  throw returns a sum: \<open>Inl\<close> of the value thrown, \<open>Inr\<close> of the value returned.
\<close>

section \<open>JavaScript values\<close>

text \<open>
  A JavaScript number is NaN, one of the two infinities, or a finite double. The code
  below only compares numbers, and comparison of finite doubles is exact, so a finite
  double is modelled by the real number it denotes (\<open>Fin 0\<close> stands for both zeros,
  which \<open>===\<close>, \<open><\<close> and \<open>>\<close> do not tell apart).
\<close>

datatype jsnum = NaN | PosInf | NegInf | Fin real

datatype jsval =
    JUndefined
  | JNull
  | JBool bool
  | JNum jsnum
  | JStr string
  | JArr "jsval list"
  | JObj "(string \<times> jsval) list"
  | JFun string

text \<open>\<open>JObj\<close> is a plain object, given by its own properties in insertion order;
  \<open>JFun\<close> is a function object, given by its name.\<close>

text \<open>The relational operators \<open><\<close>, \<open>>\<close>, \<open>>=\<close> and \<open>===\<close> on numbers: every
  comparison with NaN is false.\<close>

fun js_lt :: "jsnum \<Rightarrow> jsnum \<Rightarrow> bool" where
  "js_lt NaN _ = False"
| "js_lt _ NaN = False"
| "js_lt (Fin x) (Fin y) = (x < y)"
| "js_lt NegInf NegInf = False"
| "js_lt NegInf _ = True"
| "js_lt _ NegInf = False"
| "js_lt PosInf _ = False"
| "js_lt _ PosInf = True"

definition js_gt :: "jsnum \<Rightarrow> jsnum \<Rightarrow> bool" where
  "js_gt a b = js_lt b a"

definition js_ge :: "jsnum \<Rightarrow> jsnum \<Rightarrow> bool" where
  "js_ge a b = (a \<noteq> NaN \<and> b \<noteq> NaN \<and> \<not> js_lt a b)"

definition js_strict_eq :: "jsnum \<Rightarrow> jsnum \<Rightarrow> bool" where
  "js_strict_eq a b = (a \<noteq> NaN \<and> b \<noteq> NaN \<and> a = b)"

definition Number_isNaN :: "jsnum \<Rightarrow> bool" where
  "Number_isNaN n = (n = NaN)"

fun Number_isFinite :: "jsnum \<Rightarrow> bool" where
  "Number_isFinite (Fin _) = True"
| "Number_isFinite _ = False"

fun typeof :: "jsval \<Rightarrow> string" where
  "typeof JUndefined = ''undefined''"
| "typeof JNull = ''object''"
| "typeof (JBool _) = ''boolean''"
| "typeof (JNum _) = ''number''"
| "typeof (JStr _) = ''string''"
| "typeof (JArr _) = ''object''"
| "typeof (JObj _) = ''object''"
| "typeof (JFun _) = ''function''"

section \<open>Thrown values\<close>

text \<open>
  A \<open>throw\<close> (or a rejected promise) carries any value. The code distinguishes three
  kinds: an instance of \<open>Error\<close> (or of a subclass) with its message, the object literal
  that \<open>wrapError\<close> builds, and any other value. The \<open>cause\<close> of the literal is the
  caught \<open>Error\<close> instance, given by its message, or \<open>undefined\<close>.
\<close>

datatype phase = Config | Fetch | Filter | Classify | Generate

datatype thrown =
    ErrorInstance string
  | ReportErrorLiteral (err_name: string) (err_message: string) (err_phase: phase)
      (err_cause: "string option")
  | NonError jsval

fun instanceof_Error :: "thrown \<Rightarrow> bool" where
  "instanceof_Error (ErrorInstance _) = True"
| "instanceof_Error _ = False"

section \<open>Classifier (SpanishCoverageClassifier)\<close>

datatype CoverageCategory = SIN_COVERAGE | NO_PASA_MINIMO | SI_PASA_MINIMO

text \<open>The enum's string values; the accented letter is the code unit 0xED.\<close>

fun category_label :: "CoverageCategory \<Rightarrow> string" where
  "category_label SIN_COVERAGE = ''Sin coverage''"
| "category_label NO_PASA_MINIMO = ''No pasa del m'' @ [CHR 0xED] @ ''nimo esperado''"
| "category_label SI_PASA_MINIMO = ''Si pasa el m'' @ [CHR 0xED] @ ''nimo esperado''"

record CoverageValidationResult =
  isValid :: bool
  errorMessage :: "string option"
  normalizedValue :: "jsnum option"

definition invalid :: "string \<Rightarrow> CoverageValidationResult" where
  "invalid msg = \<lparr>isValid = False, errorMessage = Some msg, normalizedValue = None\<rparr>"

text \<open>\<open>validateCoverageInternal\<close>: the checks in the order of the source. The parameter is
  declared \<open>number\<close>, but the first check is on the run-time type, so it takes any value.\<close>

definition validateCoverageInternal :: "jsval \<Rightarrow> CoverageValidationResult" where
  "validateCoverageInternal coverage =
     (case coverage of
        JNum n \<Rightarrow>
          if Number_isNaN n then invalid ''Coverage cannot be NaN''
          else if \<not> Number_isFinite n then invalid ''Coverage must be a finite number''
          else if js_lt n (Fin 0) then invalid ''Coverage cannot be negative''
          else if js_gt n (Fin 100) then invalid ''Coverage cannot exceed 100%''
          else \<lparr>isValid = True, errorMessage = None, normalizedValue = Some n\<rparr>
      | _ \<Rightarrow> invalid ''Coverage must be a number'')"

definition validateCoverage :: "jsval \<Rightarrow> bool" where
  "validateCoverage coverage = isValid (validateCoverageInternal coverage)"

definition getZeroCoverageCategory :: CoverageCategory where
  "getZeroCoverageCategory = SIN_COVERAGE"

text \<open>A template literal prints an absent string as \<open>undefined\<close>.\<close>

fun template_str :: "string option \<Rightarrow> string" where
  "template_str (Some s) = s"
| "template_str None = ''undefined''"

text \<open>\<open>classify\<close>. An absent \<open>normalizedValue\<close> (never the case after a successful
  validation) would compare as \<open>undefined\<close>: unequal to 0 and not \<open>>=\<close> anything.\<close>

definition classify :: "jsval \<Rightarrow> jsnum \<Rightarrow> thrown + CoverageCategory" where
  "classify coverage threshold =
     (let validation = validateCoverageInternal coverage in
      if \<not> isValid validation
      then Inl (ErrorInstance (''Invalid coverage value: '' @ template_str (errorMessage validation)))
      else
        (case normalizedValue validation of
           Some normalizedCoverage \<Rightarrow>
             if js_strict_eq normalizedCoverage (Fin 0) then Inr getZeroCoverageCategory
             else if js_ge normalizedCoverage threshold then Inr SI_PASA_MINIMO
             else Inr NO_PASA_MINIMO
         | None \<Rightarrow> Inr NO_PASA_MINIMO))"

section \<open>Projects\<close>

text \<open>
  \<open>ProjectData\<close> as declared in \<open>types/project.ts\<close>. Objects are compared by reference
  (a \<open>Set\<close> of projects holds each object once); \<open>oid\<close> is the address of the object,
  so that two project objects are equal exactly when they are the same object. The
  analysis date is its time value in milliseconds.
\<close>

record ProjectData =
  oid :: nat
  name :: string
  key :: string
  coveragePercent :: jsnum
  metadata :: "(string \<times> jsval) list"
  lastAnalysis :: int

record CategorizedProject =
  project :: ProjectData
  category :: CoverageCategory
  threshold_used :: jsnum

section \<open>Filter engine (filter-strategies)\<close>

text \<open>
  The interface \<open>FilterStrategy\<close> is a record of its three methods. The element type
  \<open>'p\<close> is the type of project objects, compared by reference.
\<close>

record 'p FilterStrategy =
  apply_strategy :: "'p list \<Rightarrow> 'p list"
  canHandle :: "string \<Rightarrow> bool"
  getName :: string

record CoverageFilter =
  minCoverage :: "jsnum option"
  maxCoverage :: "jsnum option"

definition CoverageFilterStrategy :: "CoverageFilter \<Rightarrow> ProjectData FilterStrategy" where
  "CoverageFilterStrategy config =
     \<lparr>apply_strategy = filter (\<lambda>project.
          let coverage = coveragePercent project in
          if (case minCoverage config of None \<Rightarrow> False | Some m \<Rightarrow> js_lt coverage m) then False
          else if (case maxCoverage config of None \<Rightarrow> False | Some m \<Rightarrow> js_gt coverage m) then False
          else True),
      canHandle = (\<lambda>filterType. filterType = ''coverage''),
      getName = ''CoverageFilter''\<rparr>"

definition PredicateFilterStrategy :: "('p \<Rightarrow> bool) \<Rightarrow> string \<Rightarrow> 'p FilterStrategy" where
  "PredicateFilterStrategy predicate nm =
     \<lparr>apply_strategy = filter predicate,
      canHandle = (\<lambda>filterType. filterType = ''predicate'' \<or> filterType = ''custom''),
      getName = nm\<rparr>"

text \<open>\<open>Array.prototype.join\<close> on strings.\<close>

fun join :: "string \<Rightarrow> string list \<Rightarrow> string" where
  "join sep [] = []"
| "join sep [x] = x"
| "join sep (x # y # ys) = x @ sep @ join sep (y # ys)"

text \<open>AND: \<open>reduce\<close> threads the collection through the strategies, left to right.\<close>

definition AndFilterStrategy :: "'p FilterStrategy list \<Rightarrow> 'p FilterStrategy" where
  "AndFilterStrategy strategies =
     \<lparr>apply_strategy = (\<lambda>projects.
          foldl (\<lambda>filtered strategy. apply_strategy strategy filtered) projects strategies),
      canHandle = (\<lambda>filterType. filterType = ''and'' \<or> filterType = ''combined''),
      getName = ''AndFilter('' @ join '', '' (map getName strategies) @ '')''\<rparr>"

text \<open>A JavaScript \<open>Set\<close> keeps its members in insertion order; \<open>add\<close> of a member
  already present changes nothing. \<open>Array.from\<close> lists the members in that order.\<close>

definition set_add :: "'a list \<Rightarrow> 'a \<Rightarrow> 'a list" where
  "set_add results x = (if x \<in> set results then results else results @ [x])"

text \<open>OR: with no strategies the input array itself is returned; otherwise every strategy
  is applied to the original \<open>projects\<close> and its output added to one \<open>Set\<close>.\<close>

definition OrFilterStrategy :: "'p FilterStrategy list \<Rightarrow> 'p FilterStrategy" where
  "OrFilterStrategy strategies =
     \<lparr>apply_strategy = (\<lambda>projects.
          if length strategies = 0 then projects
          else foldl (\<lambda>results strategy.
                  foldl set_add results (apply_strategy strategy projects)) [] strategies),
      canHandle = (\<lambda>filterType. filterType = ''or''),
      getName = ''OrFilter('' @ join '', '' (map getName strategies) @ '')''\<rparr>"

subsection \<open>ProjectFilterBuilder\<close>

record 'p ProjectFilterBuilder =
  strategies :: "'p FilterStrategy list"

definition new_ProjectFilterBuilder :: "'p ProjectFilterBuilder" where
  "new_ProjectFilterBuilder = \<lparr>strategies = []\<rparr>"

definition addStrategy :: "'p FilterStrategy \<Rightarrow> 'p ProjectFilterBuilder \<Rightarrow> 'p ProjectFilterBuilder" where
  "addStrategy strategy b = b\<lparr>strategies := strategies b @ [strategy]\<rparr>"

definition addPredicate :: "('p \<Rightarrow> bool) \<Rightarrow> 'p ProjectFilterBuilder \<Rightarrow> 'p ProjectFilterBuilder" where
  "addPredicate predicate b =
     b\<lparr>strategies := strategies b @ [PredicateFilterStrategy predicate ''PredicateFilter'']\<rparr>"

definition and_filters :: "'p FilterStrategy list \<Rightarrow> 'p ProjectFilterBuilder \<Rightarrow> 'p ProjectFilterBuilder" where
  "and_filters filters b = b\<lparr>strategies := strategies b @ [AndFilterStrategy filters]\<rparr>"

definition or_filters :: "'p FilterStrategy list \<Rightarrow> 'p ProjectFilterBuilder \<Rightarrow> 'p ProjectFilterBuilder" where
  "or_filters filters b = b\<lparr>strategies := strategies b @ [OrFilterStrategy filters]\<rparr>"

definition build :: "'p ProjectFilterBuilder \<Rightarrow> 'p FilterStrategy" where
  "build b =
     (if length (strategies b) = 0 then PredicateFilterStrategy (\<lambda>_. True) ''NoOpFilter''
      else if length (strategies b) = 1 then strategies b ! 0
      else AndFilterStrategy (strategies b))"

text \<open>A sequence of calls on one builder, each call returning the builder.\<close>

datatype 'p builder_call =
    AddStrategy "'p FilterStrategy"
  | AddPredicate "'p \<Rightarrow> bool"
  | AndCall "'p FilterStrategy list"
  | OrCall "'p FilterStrategy list"

fun perform :: "'p ProjectFilterBuilder \<Rightarrow> 'p builder_call \<Rightarrow> 'p ProjectFilterBuilder" where
  "perform b (AddStrategy strategy) = addStrategy strategy b"
| "perform b (AddPredicate predicate) = addPredicate predicate b"
| "perform b (AndCall filters) = and_filters filters b"
| "perform b (OrCall filters) = or_filters filters b"

definition perform_all :: "'p builder_call list \<Rightarrow> 'p ProjectFilterBuilder" where
  "perform_all calls = foldl perform new_ProjectFilterBuilder calls"

subsection \<open>The combinators as the specification words them\<close>

text \<open>The strategy a call is said to add.\<close>

fun added_by :: "'p builder_call \<Rightarrow> 'p FilterStrategy" where
  "added_by (AddStrategy strategy) = strategy"
| "added_by (AddPredicate predicate) = PredicateFilterStrategy predicate ''PredicateFilter''"
| "added_by (AndCall filters) = AndFilterStrategy filters"
| "added_by (OrCall filters) = OrFilterStrategy filters"

text \<open>De-duplication that keeps every element at its first occurrence.\<close>

fun first_seen :: "'a list \<Rightarrow> 'a list" where
  "first_seen [] = []"
| "first_seen (x # xs) = x # first_seen (filter (\<lambda>y. y \<noteq> x) xs)"

text \<open>The union of the strategies' outputs, each applied to the original collection, in
  encounter order across the outputs in listed order.\<close>

definition union_of_outputs :: "'p FilterStrategy list \<Rightarrow> 'p list \<Rightarrow> 'p list" where
  "union_of_outputs ss projects =
     first_seen (concat (map (\<lambda>s. apply_strategy s projects) ss))"

section \<open>CSV reporter (PapaparseCsvReporter)\<close>

subsection \<open>Objects, property reads, truthiness\<close>

text \<open>
  A plain object is the list of its own properties in insertion order, and it inherits
  the properties of \<open>Object.prototype\<close>: reading a key that is not an own property gives
  the inherited method when the key names one (\<open>toString\<close>, \<open>constructor\<close>, ...), the
  prototype itself for \<open>__proto__\<close>, and \<open>undefined\<close> otherwise.
\<close>

definition Object_prototype_methods :: "string list" where
  "Object_prototype_methods =
     [''constructor'', ''__defineGetter__'', ''__defineSetter__'', ''hasOwnProperty'',
      ''__lookupGetter__'', ''__lookupSetter__'', ''isPrototypeOf'', ''propertyIsEnumerable'',
      ''toString'', ''valueOf'', ''toLocaleString'']"

definition inherited :: "string \<Rightarrow> jsval" where
  "inherited k =
     (if k \<in> set Object_prototype_methods
      then JFun (if k = ''constructor'' then ''Object'' else k)
      else if k = ''__proto__'' then JObj []
      else JUndefined)"

text \<open>\<open>obj[k]\<close> on a plain object.\<close>

definition obj_get :: "(string \<times> jsval) list \<Rightarrow> string \<Rightarrow> jsval" where
  "obj_get kvs k = (case map_of kvs k of None \<Rightarrow> inherited k | Some v \<Rightarrow> v)"

text \<open>The definition of an own property, as an object literal with a computed key and
  the spread of an object do it: an existing property keeps its place.\<close>

definition obj_set :: "(string \<times> jsval) list \<Rightarrow> string \<Rightarrow> jsval \<Rightarrow> (string \<times> jsval) list" where
  "obj_set kvs k v =
     (if k \<in> set (map fst kvs) then map (\<lambda>(k', v'). if k' = k then (k', v) else (k', v')) kvs
      else kvs @ [(k, v)])"

text \<open>The assignment \<open>obj[k] = v\<close> to a plain object that has no own property
  \<open>__proto__\<close>: for that key the assignment goes to the inherited setter and creates no own
  property; for every other key it defines the property.\<close>

definition obj_assign :: "(string \<times> jsval) list \<Rightarrow> string \<Rightarrow> jsval \<Rightarrow> (string \<times> jsval) list" where
  "obj_assign kvs k v = (if k = ''__proto__'' then kvs else obj_set kvs k v)"

text \<open>
  Reading one of the properties that the code reads by name (\<open>project\<close>, \<open>name\<close>,
  \<open>coveragePercent\<close>, \<open>category\<close>, \<open>threshold\<close>): from a function, \<open>name\<close> is its name;
  from a primitive or an array each of them is \<open>undefined\<close>. (Reading from \<open>null\<close> or
  \<open>undefined\<close> itself would throw a \<open>TypeError\<close>; every such read below is guarded by a
  truthiness test that has already failed, or follows a successful \<open>validateData\<close>, so the
  value given here is never used.)
\<close>

fun get_prop :: "jsval \<Rightarrow> string \<Rightarrow> jsval" where
  "get_prop (JObj kvs) k = obj_get kvs k"
| "get_prop (JFun n) k = (if k = ''name'' then JStr n else JUndefined)"
| "get_prop _ k = JUndefined"

fun truthy :: "jsval \<Rightarrow> bool" where
  "truthy JUndefined = False"
| "truthy JNull = False"
| "truthy (JBool b) = b"
| "truthy (JNum n) = (n \<noteq> NaN \<and> n \<noteq> Fin 0)"
| "truthy (JStr s) = (s \<noteq> [])"
| "truthy (JArr _) = True"
| "truthy (JObj _) = True"
| "truthy (JFun _) = True"

subsection \<open>Platform functions\<close>

text \<open>
  Built-in functions of the JavaScript platform that the code calls and that are taken as
  given: \<open>Number.prototype.toFixed\<close> (for a digit count within 0..100), the string
  conversion of a value that is not a string, and whether \<open>new URL\<close> accepts a string.
\<close>

record Platform =
  toFixed :: "jsnum \<Rightarrow> nat \<Rightarrow> string"
  String_of :: "jsval \<Rightarrow> string"
  URL_parses :: "string \<Rightarrow> bool"

subsection \<open>Configuration\<close>

record NumberFormat =
  decimalPlaces :: "int option"
  includePercentSign :: "bool option"

text \<open>\<open>CsvConfig\<close>: every field is optional; \<open>None\<close> is an absent field.\<close>

record CsvConfig =
  headers :: "string list option"
  delimiter :: "string option"
  includeHeaders :: "bool option"
  columnMapping :: "(string \<times> string) list option"
  numberFormat :: "NumberFormat option"

text \<open>\<open>Required<CsvConfig>\<close>: the configuration after the defaults are merged in.\<close>

record MergedCsvConfig =
  merged_headers :: "string list"
  merged_delimiter :: string
  merged_includeHeaders :: bool
  merged_columnMapping :: "(string \<times> string) list"
  merged_numberFormat :: NumberFormat

definition DEFAULT_CSV_CONFIG :: MergedCsvConfig where
  "DEFAULT_CSV_CONFIG =
     \<lparr>merged_headers = [''repository'', ''coverage_percent'', ''category''],
      merged_delimiter = '','',
      merged_includeHeaders = True,
      merged_columnMapping = [],
      merged_numberFormat = \<lparr>decimalPlaces = Some 2, includePercentSign = Some False\<rparr>\<rparr>"

text \<open>The spread \<open>{ ...DEFAULT_CSV_CONFIG, ...config }\<close>: a field present in \<open>config\<close>
  replaces the default as a whole (the number format is not merged field by field).\<close>

fun merge_config :: "CsvConfig option \<Rightarrow> MergedCsvConfig" where
  "merge_config None = DEFAULT_CSV_CONFIG"
| "merge_config (Some config) =
     \<lparr>merged_headers = (case headers config of None \<Rightarrow> merged_headers DEFAULT_CSV_CONFIG | Some h \<Rightarrow> h),
      merged_delimiter = (case delimiter config of None \<Rightarrow> merged_delimiter DEFAULT_CSV_CONFIG | Some d \<Rightarrow> d),
      merged_includeHeaders =
        (case includeHeaders config of None \<Rightarrow> merged_includeHeaders DEFAULT_CSV_CONFIG | Some b \<Rightarrow> b),
      merged_columnMapping =
        (case columnMapping config of None \<Rightarrow> merged_columnMapping DEFAULT_CSV_CONFIG | Some m \<Rightarrow> m),
      merged_numberFormat =
        (case numberFormat config of None \<Rightarrow> merged_numberFormat DEFAULT_CSV_CONFIG | Some f \<Rightarrow> f)\<rparr>"

subsection \<open>validateData\<close>

definition item_ok :: "jsval \<Rightarrow> bool" where
  "item_ok item =
     (truthy item \<and>
      truthy (get_prop item ''project'') \<and>
      typeof (get_prop (get_prop item ''project'') ''name'') = ''string'' \<and>
      typeof (get_prop (get_prop item ''project'') ''coveragePercent'') = ''number'' \<and>
      typeof (get_prop item ''category'') = ''string'' \<and>
      typeof (get_prop item ''threshold'') = ''number'')"

definition validateData :: "jsval \<Rightarrow> bool" where
  "validateData data =
     (case data of
        JArr items \<Rightarrow> if length items = 0 then True else list_all item_ok items
      | _ \<Rightarrow> False)"

subsection \<open>Rows\<close>

text \<open>\<open>formatCoverage\<close>. \<open>toFixed\<close> is a method of numbers only, takes an absent digit
  count as 0 and throws a \<open>RangeError\<close> for a count outside 0..100.\<close>

definition formatCoverage :: "Platform \<Rightarrow> jsval \<Rightarrow> NumberFormat \<Rightarrow> thrown + string" where
  "formatCoverage js coverage nf =
     (case coverage of
        JNum n \<Rightarrow>
          (let digits = (case decimalPlaces nf of None \<Rightarrow> 0 | Some d \<Rightarrow> d) in
           if digits < 0 \<or> 100 < digits
           then Inl (ErrorInstance ''toFixed() digits argument must be between 0 and 100'')
           else
             (let formatted = toFixed js n (nat digits) in
              Inr (if includePercentSign nf = Some True then formatted @ ''%'' else formatted)))
      | _ \<Rightarrow> Inl (ErrorInstance ''coverage.toFixed is not a function''))"

text \<open>\<open>config.headers[i]\<close> as a property key: beyond the end of the array it is
  \<open>undefined\<close>, which as a key is the string \<open>undefined\<close>.\<close>

definition header_key :: "string list \<Rightarrow> nat \<Rightarrow> string" where
  "header_key hs i = (if i < length hs then hs ! i else ''undefined'')"

text \<open>The body of the \<open>map\<close> callback of \<open>transformDataToCsvRows\<close>, for one item.\<close>

definition transformItem :: "Platform \<Rightarrow> MergedCsvConfig \<Rightarrow> jsval \<Rightarrow> thrown + (string \<times> jsval) list" where
  "transformItem js config item =
     (case formatCoverage js (get_prop (get_prop item ''project'') ''coveragePercent'')
             (merged_numberFormat config) of
        Inl e \<Rightarrow> Inl e
      | Inr coverage \<Rightarrow>
          (let row =
             obj_set
               (obj_set
                  (obj_set [] (header_key (merged_headers config) 0)
                     (get_prop (get_prop item ''project'') ''name''))
                  (header_key (merged_headers config) 1) (JStr coverage))
               (header_key (merged_headers config) 2) (get_prop item ''category'')
           in
           if length (merged_columnMapping config) > 0
           then
             (let mappedRow =
                foldl (\<lambda>mappedRow (originalKey, mappedKey).
                         if obj_get row originalKey \<noteq> JUndefined
                         then obj_assign mappedRow mappedKey (obj_get row originalKey)
                         else mappedRow)
                  [] (merged_columnMapping config)
              in Inr (foldl (\<lambda>r (k, v). obj_set r k v) row mappedRow))
           else Inr row))"

fun transformDataToCsvRows ::
  "Platform \<Rightarrow> jsval list \<Rightarrow> MergedCsvConfig \<Rightarrow> thrown + (string \<times> jsval) list list" where
  "transformDataToCsvRows js [] config = Inr []"
| "transformDataToCsvRows js (item # items) config =
     (case transformItem js config item of
        Inl e \<Rightarrow> Inl e
      | Inr row \<Rightarrow>
          (case transformDataToCsvRows js items config of
             Inl e \<Rightarrow> Inl e
           | Inr rows \<Rightarrow> Inr (row # rows)))"

subsection \<open>Serialisation\<close>

text \<open>
  Modelled from the spec: \<open>Papa.unparse\<close> belongs to the papaparse library, which is not
  among the source files. The specification asks of the serialisation: the configured
  delimiter between fields, a field containing the delimiter, a quote or a line break
  quoted with its quotes doubled, the header row first when headers are enabled, one line
  break between rows. The repository's reporter test fixes the rest: the header row is the
  \<open>columns\<close> option as given, each row lists the values under these keys in this order,
  and an empty array gives the empty string. The line break is the library's default,
  CR LF.
\<close>

definition needs_quotes :: "string \<Rightarrow> string \<Rightarrow> bool" where
  "needs_quotes delim s =
     list_ex (\<lambda>ch. ch \<in> set delim \<or> ch = CHR 0x22 \<or> ch = CHR 0x0A \<or> ch = CHR 0x0D) s"

definition csv_field :: "string \<Rightarrow> string \<Rightarrow> string" where
  "csv_field delim s =
     (if needs_quotes delim s
      then [CHR 0x22] @ concat (map (\<lambda>ch. if ch = CHR 0x22 then [CHR 0x22, CHR 0x22] else [ch]) s)
           @ [CHR 0x22]
      else s)"

fun cell_text :: "Platform \<Rightarrow> jsval \<Rightarrow> string" where
  "cell_text js JUndefined = []"
| "cell_text js JNull = []"
| "cell_text js (JStr s) = s"
| "cell_text js v = String_of js v"

definition unparse ::
  "Platform \<Rightarrow> (string \<times> jsval) list list \<Rightarrow> string \<Rightarrow> bool \<Rightarrow> string list \<Rightarrow> string" where
  "unparse js rows delim header columns =
     (if rows = [] then []
      else join [CHR 0x0D, CHR 0x0A]
        ((if header then [join delim (map (csv_field delim) columns)] else []) @
         map (\<lambda>row. join delim (map (\<lambda>c. csv_field delim (cell_text js (obj_get row c))) columns))
           rows))"

subsection \<open>generate, generateDetailed, writeToFile\<close>

record CsvResult =
  content :: string
  rowCount :: nat
  csv_generatedAt :: int
  csv_config :: MergedCsvConfig

fun array_items :: "jsval \<Rightarrow> jsval list" where
  "array_items (JArr items) = items"
| "array_items _ = []"

text \<open>\<open>generateDetailed\<close>; \<open>now\<close> is the reading of the clock for \<open>new Date()\<close>.\<close>

definition generateDetailed :: "Platform \<Rightarrow> int \<Rightarrow> jsval \<Rightarrow> CsvConfig option \<Rightarrow> thrown + CsvResult" where
  "generateDetailed js now data config =
     (let mergedConfig = merge_config config in
      if \<not> validateData data
      then Inl (ErrorInstance ''Invalid data provided for CSV generation'')
      else
        (case transformDataToCsvRows js (array_items data) mergedConfig of
           Inl e \<Rightarrow> Inl e
         | Inr csvData \<Rightarrow>
             Inr \<lparr>content =
                    unparse js csvData (merged_delimiter mergedConfig)
                      (merged_includeHeaders mergedConfig) (merged_headers mergedConfig),
                  rowCount = length (array_items data),
                  csv_generatedAt = now,
                  csv_config = mergedConfig\<rparr>))"

definition generate :: "Platform \<Rightarrow> int \<Rightarrow> jsval \<Rightarrow> CsvConfig option \<Rightarrow> thrown + string" where
  "generate js now data config =
     (case generateDetailed js now data config of
        Inl e \<Rightarrow> Inl e
      | Inr result \<Rightarrow> Inr (content result))"

fun message_or :: "string \<Rightarrow> thrown \<Rightarrow> string" where
  "message_or d (ErrorInstance m) = m"
| "message_or d _ = d"

text \<open>\<open>writeToFile\<close>; \<open>writeFile\<close> is \<open>node:fs/promises\<close>' function, given by its outcome
  for a path and a content.\<close>

definition writeToFile ::
  "(string \<Rightarrow> string \<Rightarrow> thrown + unit) \<Rightarrow> string \<Rightarrow> string \<Rightarrow> thrown + unit" where
  "writeToFile writeFile csv path =
     (case writeFile path csv of
        Inl error \<Rightarrow>
          Inl (ErrorInstance (''Failed to write CSV file to '' @ path @ '': '' @
                 message_or ''Unknown error'' error))
      | Inr u \<Rightarrow> Inr u)"

text \<open>The rule of the specification's validation sentence for one element: a non-empty
  string name, a numeric coverage, a string category and a numeric threshold; and the
  same rule without the demand that the name be non-empty.\<close>

definition has_required_fields :: "jsval \<Rightarrow> bool" where
  "has_required_fields item =
     (typeof (get_prop (get_prop item ''project'') ''name'') = ''string'' \<and>
      typeof (get_prop (get_prop item ''project'') ''coveragePercent'') = ''number'' \<and>
      typeof (get_prop item ''category'') = ''string'' \<and>
      typeof (get_prop item ''threshold'') = ''number'')"

definition has_required_fields_nonempty_name :: "jsval \<Rightarrow> bool" where
  "has_required_fields_nonempty_name item =
     (has_required_fields item \<and> get_prop (get_prop item ''project'') ''name'' \<noteq> JStr [])"

section \<open>Orchestrator (DefaultReportOrchestrator)\<close>

subsection \<open>Configuration and result\<close>

text \<open>
  \<open>ReportConfig\<close> as declared in \<open>types/orchestrator.ts\<close>: the SonarQube section and the
  classification section with its threshold are required fields, the filters and the
  output path are optional.
\<close>

record SonarQubeConfig =
  baseUrl :: string
  token :: string
  timeout :: "nat option"

record ClassificationConfig =
  threshold :: jsnum
  strictZeroClassification :: "bool option"

record ReportConfig =
  sonarqube :: SonarQubeConfig
  classification :: ClassificationConfig
  csv :: CsvConfig
  filters :: "ProjectData FilterStrategy list option"
  outputPath :: "string option"

text \<open>\<open>ReportResult\<close>; the category counts are the object's entries in insertion order.\<close>

record ReportResult =
  csvContent :: string
  projectCount :: nat
  categoryCounts :: "(CoverageCategory \<times> nat) list"
  generatedAt :: int
  report_config :: ReportConfig
  processingTime :: int

subsection \<open>Collaborators\<close>

text \<open>
  The four constructor arguments. Each collaborator is an interface, given here by the
  outcome of each call the orchestrator makes: a value, or the value thrown (or the
  rejection of the promise). An injected filter is given by its \<open>apply\<close>.
\<close>

record Dependencies =
  client_authenticate :: "string \<Rightarrow> thrown + unit"
  client_fetchProjects :: "thrown + ProjectData list"
  injected_filters :: "(ProjectData list \<Rightarrow> thrown + ProjectData list) list"
  classifier_classify :: "jsval \<Rightarrow> jsnum \<Rightarrow> thrown + CoverageCategory"
  reporter_generate :: "CategorizedProject list \<Rightarrow> CsvConfig \<Rightarrow> thrown + string"
  reporter_writeToFile :: "string \<Rightarrow> string \<Rightarrow> thrown + unit"

text \<open>The readings of the clock: \<open>Date.now()\<close> at the start, \<open>new Date()\<close> and \<open>Date.now()\<close>
  when the result is built.\<close>

record Clock =
  startTime :: int
  resultTime :: int
  endTime :: int

text \<open>What the run does to the outside, in order: the calls to the client and to the
  file writer, and the notifications to the progress callback. A notification is what a
  callback that is present receives; callbacks are taken to return normally.\<close>

datatype event =
    Authenticate string
  | OnFetchingProjects
  | FetchProjects
  | OnFiltering nat nat
  | OnProjectProcessed CategorizedProject nat nat
  | OnGeneratingCsv
  | WriteToFile string string
  | OnComplete ReportResult

subsection \<open>wrapError\<close>

fun phase_name :: "phase \<Rightarrow> string" where
  "phase_name Config = ''config''"
| "phase_name Fetch = ''fetch''"
| "phase_name Filter = ''filter''"
| "phase_name Classify = ''classify''"
| "phase_name Generate = ''generate''"

fun cause_of :: "thrown \<Rightarrow> string option" where
  "cause_of (ErrorInstance m) = Some m"
| "cause_of _ = None"

text \<open>\<open>wrapError\<close> returns an object literal, cast to \<open>ReportError\<close>: no constructor runs.\<close>

definition wrapError :: "thrown \<Rightarrow> phase \<Rightarrow> thrown" where
  "wrapError error ph =
     (let message = message_or ''Unknown error occurred'' error;
          cause = cause_of error
      in ReportErrorLiteral ''ReportError''
           (''Error in '' @ phase_name ph @ '' phase: '' @ message) ph cause)"

subsection \<open>validateConfig\<close>

text \<open>The body of the \<open>try\<close> block. The test of the threshold against \<open>undefined\<close> holds
  for every number; a failure of \<open>new URL\<close> is replaced by the format error.\<close>

definition validateConfig_try :: "Platform \<Rightarrow> ReportConfig \<Rightarrow> thrown + bool" where
  "validateConfig_try js config =
     (if baseUrl (sonarqube config) = []
      then Inl (ErrorInstance ''SonarQube baseUrl is required'')
      else if token (sonarqube config) = []
      then Inl (ErrorInstance ''SonarQube token is required'')
      else if js_lt (threshold (classification config)) (Fin 0) \<or>
              js_gt (threshold (classification config)) (Fin 100)
      then Inl (ErrorInstance ''Classification threshold must be between 0 and 100'')
      else if \<not> URL_parses js (baseUrl (sonarqube config))
      then Inl (ErrorInstance ''Invalid SonarQube baseUrl format'')
      else Inr True)"

definition validateConfig :: "Platform \<Rightarrow> ReportConfig \<Rightarrow> thrown + bool" where
  "validateConfig js config =
     (case validateConfig_try js config of
        Inl error \<Rightarrow> Inl (wrapError error Config)
      | Inr ok \<Rightarrow> Inr ok)"

subsection \<open>The steps\<close>

text \<open>\<open>applyFilters\<close>: \<open>reduce\<close> over the injected filters; a filter that throws ends it.\<close>

fun applyFilters ::
  "(ProjectData list \<Rightarrow> thrown + ProjectData list) list \<Rightarrow> ProjectData list \<Rightarrow>
   thrown + ProjectData list" where
  "applyFilters [] projects = Inr projects"
| "applyFilters (f # fs) projects =
     (case f projects of
        Inl e \<Rightarrow> Inl e
      | Inr filtered \<Rightarrow> applyFilters fs filtered)"

text \<open>\<open>classifyProjects\<close>: the \<open>map\<close> callback runs project by project; \<open>index\<close> counts
  the projects already classified and \<open>len\<close> is \<open>projects.length\<close>.\<close>

fun classifyFrom ::
  "Dependencies \<Rightarrow> ClassificationConfig \<Rightarrow> nat \<Rightarrow> nat \<Rightarrow> ProjectData list \<Rightarrow>
   event list \<times> (thrown + CategorizedProject list)" where
  "classifyFrom deps classificationConfig index len [] = ([], Inr [])"
| "classifyFrom deps classificationConfig index len (p # rest) =
     (case classifier_classify deps (JNum (coveragePercent p)) (threshold classificationConfig) of
        Inl e \<Rightarrow> ([], Inl e)
      | Inr c \<Rightarrow>
          (let categorized =
                 \<lparr>project = p, category = c, threshold_used = threshold classificationConfig\<rparr>
           in
           (case classifyFrom deps classificationConfig (index + 1) len rest of
              (evs, Inl e) \<Rightarrow> (OnProjectProcessed categorized (index + 1) len # evs, Inl e)
            | (evs, Inr cs) \<Rightarrow>
                (OnProjectProcessed categorized (index + 1) len # evs, Inr (categorized # cs)))))"

definition classifyProjects ::
  "Dependencies \<Rightarrow> ProjectData list \<Rightarrow> ClassificationConfig \<Rightarrow>
   event list \<times> (thrown + CategorizedProject list)" where
  "classifyProjects deps projects classificationConfig =
     classifyFrom deps classificationConfig 0 (length projects) projects"

definition count_category ::
  "(CoverageCategory \<times> nat) list \<Rightarrow> CoverageCategory \<Rightarrow> (CoverageCategory \<times> nat) list" where
  "count_category counts c =
     (if c \<in> set (map fst counts)
      then map (\<lambda>(c', n). if c' = c then (c', n + 1) else (c', n)) counts
      else counts @ [(c, 1)])"

definition calculateCategoryCounts :: "CategorizedProject list \<Rightarrow> (CoverageCategory \<times> nat) list" where
  "calculateCategoryCounts projects =
     foldl (\<lambda>counts p. count_category counts (category p)) [] projects"

subsection \<open>generateReport\<close>

text \<open>The body of the \<open>try\<close> block of \<open>generateReport\<close>, with the events up to the point
  where it returns or throws.\<close>

definition generateReport_try ::
  "Platform \<Rightarrow> Dependencies \<Rightarrow> Clock \<Rightarrow> ReportConfig \<Rightarrow> event list \<times> (thrown + ReportResult)" where
  "generateReport_try js deps clock config =
     (case validateConfig js config of
        Inl e \<Rightarrow> ([], Inl e)
      | Inr _ \<Rightarrow>
     (let ev1 = [Authenticate (token (sonarqube config))] in
      case client_authenticate deps (token (sonarqube config)) of
        Inl e \<Rightarrow> (ev1, Inl e)
      | Inr _ \<Rightarrow>
     (let ev2 = ev1 @ [OnFetchingProjects, FetchProjects] in
      case client_fetchProjects deps of
        Inl e \<Rightarrow> (ev2, Inl e)
      | Inr projects \<Rightarrow>
     (case applyFilters (injected_filters deps) projects of
        Inl e \<Rightarrow> (ev2, Inl e)
      | Inr filteredProjects \<Rightarrow>
     (let ev3 = ev2 @ [OnFiltering (length projects) (length filteredProjects)] in
      case classifyProjects deps filteredProjects (classification config) of
        (evs, Inl e) \<Rightarrow> (ev3 @ evs, Inl e)
      | (evs, Inr categorizedProjects) \<Rightarrow>
     (let ev4 = ev3 @ evs @ [OnGeneratingCsv] in
      case reporter_generate deps categorizedProjects (csv config) of
        Inl e \<Rightarrow> (ev4, Inl e)
      | Inr csv_text \<Rightarrow>
     (case (case outputPath config of
              None \<Rightarrow> ([], Inr ())
            | Some path \<Rightarrow>
                if path = [] then ([], Inr ())
                else ([WriteToFile csv_text path], reporter_writeToFile deps csv_text path)) of
        (evw, Inl e) \<Rightarrow> (ev4 @ evw, Inl e)
      | (evw, Inr _) \<Rightarrow>
          (let result =
                 \<lparr>csvContent = csv_text,
                  projectCount = length categorizedProjects,
                  categoryCounts = calculateCategoryCounts categorizedProjects,
                  generatedAt = resultTime clock,
                  report_config = config,
                  processingTime = endTime clock - startTime clock\<rparr>
           in (ev4 @ evw @ [OnComplete result], Inr result)))))))))"

text \<open>\<open>generateReport\<close>: whatever the \<open>try\<close> block throws is caught, wrapped and thrown.\<close>

definition generateReport ::
  "Platform \<Rightarrow> Dependencies \<Rightarrow> Clock \<Rightarrow> ReportConfig \<Rightarrow> event list \<times> (thrown + ReportResult)" where
  "generateReport js deps clock config =
     (case generateReport_try js deps clock config of
        (evs, Inl error) \<Rightarrow> (evs, Inl (wrapError error Generate))
      | (evs, Inr result) \<Rightarrow> (evs, Inr result))"

text \<open>The CSV content that a run hands to its caller.\<close>

fun reported_csv :: "thrown + ReportResult \<Rightarrow> string option" where
  "reported_csv (Inr result) = Some (csvContent result)"
| "reported_csv (Inl _) = None"

text \<open>An outcome with the filters of the configuration it echoes replaced.\<close>

definition result_with_filters ::
  "ProjectData FilterStrategy list option \<Rightarrow> ReportResult \<Rightarrow> ReportResult" where
  "result_with_filters fs r = r\<lparr>report_config := (report_config r)\<lparr>filters := fs\<rparr>\<rparr>"

fun event_with_filters :: "ProjectData FilterStrategy list option \<Rightarrow> event \<Rightarrow> event" where
  "event_with_filters fs (OnComplete r) = OnComplete (result_with_filters fs r)"
| "event_with_filters fs e = e"

fun outcome_with_filters ::
  "ProjectData FilterStrategy list option \<Rightarrow> event list \<times> (thrown + ReportResult) \<Rightarrow>
   event list \<times> (thrown + ReportResult)" where
  "outcome_with_filters fs (evs, Inl e) = (map (event_with_filters fs) evs, Inl e)"
| "outcome_with_filters fs (evs, Inr r) =
     (map (event_with_filters fs) evs, Inr (result_with_filters fs r))"

section \<open>Example data\<close>

text \<open>The three projects of the specification's end-to-end scenario, as three objects.\<close>

definition fe_app :: ProjectData where
  "fe_app = \<lparr>oid = 1, name = ''fe-app'', key = ''fe-app'', coveragePercent = Fin 0,
     metadata = [], lastAnalysis = 0\<rparr>"

definition fe_lib :: ProjectData where
  "fe_lib = \<lparr>oid = 2, name = ''fe-lib'', key = ''fe-lib'', coveragePercent = Fin 30,
     metadata = [], lastAnalysis = 0\<rparr>"

definition fe_core :: ProjectData where
  "fe_core = \<lparr>oid = 3, name = ''fe-core'', key = ''fe-core'', coveragePercent = Fin 80,
     metadata = [], lastAnalysis = 0\<rparr>"

definition coverageAbove :: "real \<Rightarrow> ProjectData FilterStrategy" where
  "coverageAbove t = CoverageFilterStrategy \<lparr>minCoverage = Some (Fin t), maxCoverage = None\<rparr>"

definition coverageBelow :: "real \<Rightarrow> ProjectData FilterStrategy" where
  "coverageBelow t = CoverageFilterStrategy \<lparr>minCoverage = None, maxCoverage = Some (Fin t)\<rparr>"

text \<open>Categorized projects as the values the reporter receives.\<close>

definition js_of_project :: "ProjectData \<Rightarrow> jsval" where
  "js_of_project p =
     JObj [(''name'', JStr (name p)), (''key'', JStr (key p)),
           (''coveragePercent'', JNum (coveragePercent p)),
           (''metadata'', JObj (metadata p)),
           (''lastAnalysis'', JObj [])]"

definition js_of_categorized :: "CategorizedProject \<Rightarrow> jsval" where
  "js_of_categorized cp =
     JObj [(''project'', js_of_project (project cp)),
           (''category'', JStr (category_label (category cp))),
           (''threshold'', JNum (threshold_used cp))]"

text \<open>A platform for the examples: \<open>toFixed\<close> at the numbers the examples format.\<close>

definition example_platform :: Platform where
  "example_platform =
     \<lparr>toFixed = (\<lambda>n digits.
         if n = Fin 0 \<and> digits = 2 then ''0.00''
         else if n = Fin 30 \<and> digits = 2 then ''30.00''
         else if n = Fin 80 \<and> digits = 2 then ''80.00''
         else ''?''),
      String_of = (\<lambda>v. ''?''),
      URL_parses = (\<lambda>u. u = ''https://sonar.example.com'')\<rparr>"

definition fe_core_passes :: CategorizedProject where
  "fe_core_passes = \<lparr>project = fe_core, category = SI_PASA_MINIMO, threshold_used = Fin 50\<rparr>"

text \<open>An element whose project name is the empty string.\<close>

definition unnamed_item :: jsval where
  "unnamed_item =
     JObj [(''project'', JObj [(''name'', JStr []), (''key'', JStr ''k''),
                               (''coveragePercent'', JNum (Fin 80))]),
           (''category'', JStr ''Sin coverage''),
           (''threshold'', JNum (Fin 50))]"

text \<open>An element whose project lacks the coverage.\<close>

definition incomplete_item :: jsval where
  "incomplete_item =
     JObj [(''project'', JObj [(''name'', JStr ''test'')]),
           (''category'', JStr ''Sin coverage''),
           (''threshold'', JNum (Fin 50))]"

text \<open>Two rows agree on the columns \<open>hs\<close> when they hold the same value under each.\<close>

definition agree :: "string list \<Rightarrow> (string \<times> jsval) list \<Rightarrow> (string \<times> jsval) list \<Rightarrow> bool" where
  "agree hs r' r = (\<forall>c \<in> set hs. obj_get r' c = obj_get r c)"

text \<open>A configuration object with no field set.\<close>

definition no_options :: CsvConfig where
  "no_options = \<lparr>headers = None, delimiter = None, includeHeaders = None,
     columnMapping = None, numberFormat = None\<rparr>"

text \<open>The reporter and the classifier of the repository as collaborators of the
  orchestrator, and a run over the three example projects.\<close>

definition PapaparseCsvReporter_generate ::
  "Platform \<Rightarrow> int \<Rightarrow> CategorizedProject list \<Rightarrow> CsvConfig \<Rightarrow> thrown + string" where
  "PapaparseCsvReporter_generate js now data config =
     generate js now (JArr (map js_of_categorized data)) (Some config)"

definition example_config :: ReportConfig where
  "example_config =
     \<lparr>sonarqube = \<lparr>baseUrl = ''https://sonar.example.com'', token = ''secret'', timeout = None\<rparr>,
      classification = \<lparr>threshold = Fin 50, strictZeroClassification = None\<rparr>,
      csv = no_options,
      filters = None,
      outputPath = None\<rparr>"

definition example_deps :: Dependencies where
  "example_deps =
     \<lparr>client_authenticate = (\<lambda>t. Inr ()),
      client_fetchProjects = Inr [fe_app, fe_lib, fe_core],
      injected_filters = [\<lambda>ps. Inr (apply_strategy (coverageAbove 40) ps)],
      classifier_classify = classify,
      reporter_generate = PapaparseCsvReporter_generate example_platform 0,
      reporter_writeToFile = writeToFile (\<lambda>path text. Inr ())\<rparr>"

definition example_clock :: Clock where
  "example_clock = \<lparr>startTime = 1000, resultTime = 1007, endTime = 1007\<rparr>"

text \<open>A project whose coverage the classifier rejects.\<close>

definition broken_project :: ProjectData where
  "broken_project = \<lparr>oid = 4, name = ''broken'', key = ''broken'', coveragePercent = Fin 150,
     metadata = [], lastAnalysis = 0\<rparr>"

text \<open>The same run with an output path and a file system that refuses the write, and
  with a collaborator failing at each of the earlier steps.\<close>

definition output_config :: ReportConfig where
  "output_config = example_config\<lparr>outputPath := Some ''report.csv''\<rparr>"

definition unwritable_deps :: Dependencies where
  "unwritable_deps =
     example_deps\<lparr>reporter_writeToFile :=
       writeToFile (\<lambda>path text. Inl (ErrorInstance ''EACCES: permission denied''))\<rparr>"


definition fetch_fails :: Dependencies where
  "fetch_fails = example_deps\<lparr>client_fetchProjects := Inl (ErrorInstance ''Network error: ECONNREFUSED'')\<rparr>"

definition fetch_rejects_with_string :: Dependencies where
  "fetch_rejects_with_string = example_deps\<lparr>client_fetchProjects := Inl (NonError (JStr ''timeout''))\<rparr>"



definition too_many_digits :: ReportConfig where
  "too_many_digits =
     example_config\<lparr>csv := no_options\<lparr>numberFormat :=
       Some \<lparr>decimalPlaces = Some 101, includePercentSign = None\<rparr>\<rparr>\<rparr>"

definition no_base_url :: ReportConfig where
  "no_base_url =
     example_config\<lparr>sonarqube := \<lparr>baseUrl = [], token = ''secret'', timeout = None\<rparr>\<rparr>"

section \<open>Classifier: results\<close>

lemma js_ge_Fin [simp]: "js_ge (Fin a) (Fin b) = (b \<le> a)"
  by (auto simp: js_ge_def)

lemma js_ge_NaN [simp]: "js_ge a NaN = False"
  by (simp add: js_ge_def)

lemma validateCoverage_iff:
  "validateCoverage v \<longleftrightarrow> (\<exists>c. v = JNum (Fin c) \<and> 0 \<le> c \<and> c \<le> 100)"
proof (cases v)
  case (JNum n)
  then show ?thesis
    by (cases n)
      (auto simp: validateCoverage_def validateCoverageInternal_def invalid_def
        Number_isNaN_def js_gt_def)
qed (simp_all add: validateCoverage_def validateCoverageInternal_def invalid_def)

lemma classify_valid:
  "0 \<le> c \<Longrightarrow> c \<le> 100 \<Longrightarrow>
   classify (JNum (Fin c)) t =
     Inr (if c = 0 then SIN_COVERAGE
          else if js_ge (Fin c) t then SI_PASA_MINIMO else NO_PASA_MINIMO)"
  by (simp add: classify_def validateCoverageInternal_def Number_isNaN_def js_gt_def
      js_strict_eq_def getZeroCoverageCategory_def)

text \<open>
  C1. A coverage value that passes validation is a finite number \<open>c\<close> with
  \<open>0 \<le> c \<le> 100\<close>, and for every threshold \<open>t\<close> (NaN and the infinities included):
  \<open>classify\<close> returns \<open>SIN_COVERAGE\<close> exactly when \<open>c = 0\<close>; for \<open>c > 0\<close> it returns
  \<open>SI_PASA_MINIMO\<close> when \<open>c >= t\<close> and \<open>NO_PASA_MINIMO\<close> otherwise; and a positive
  coverage classified against itself as threshold passes.
\<close>

theorem classify_categories:
  assumes "validateCoverage v"
  shows "\<exists>c. v = JNum (Fin c) \<and> 0 \<le> c \<and> c \<le> 100 \<and>
           (classify v t = Inr SIN_COVERAGE \<longleftrightarrow> c = 0) \<and>
           (0 < c \<longrightarrow> (classify v t = Inr SI_PASA_MINIMO \<longleftrightarrow> js_ge (Fin c) t)) \<and>
           (0 < c \<longrightarrow> classify v t =
              Inr (if js_ge (Fin c) t then SI_PASA_MINIMO else NO_PASA_MINIMO)) \<and>
           (0 < c \<longrightarrow> classify v (Fin c) = Inr SI_PASA_MINIMO)"
proof -
  from assms obtain c where c: "v = JNum (Fin c)" "0 \<le> c" "c \<le> 100"
    by (auto simp: validateCoverage_iff)
  have "classify v u =
      Inr (if c = 0 then SIN_COVERAGE
           else if js_ge (Fin c) u then SI_PASA_MINIMO else NO_PASA_MINIMO)" for u
    using c by (simp add: classify_valid)
  with c show ?thesis by auto
qed

theorem classify_categories_witness:
  "validateCoverage (JNum (Fin 50)) \<and>
   classify (JNum (Fin 50)) (Fin 50) = Inr SI_PASA_MINIMO \<and>
   validateCoverage (JNum (Fin 25)) \<and>
   classify (JNum (Fin 25)) (Fin 50) = Inr NO_PASA_MINIMO \<and>
   validateCoverage (JNum (Fin 0)) \<and>
   classify (JNum (Fin 0)) (Fin 50) = Inr SIN_COVERAGE"
proof -
  have v50: "validateCoverage (JNum (Fin 50))" and v25: "validateCoverage (JNum (Fin 25))"
    and v0: "validateCoverage (JNum (Fin 0))"
    by (simp_all add: validateCoverage_iff)
  from classify_categories [OF v50, of "Fin 50"]
  have a: "classify (JNum (Fin 50)) (Fin 50) = Inr SI_PASA_MINIMO" by auto
  from classify_categories [OF v25, of "Fin 50"]
  have b: "classify (JNum (Fin 25)) (Fin 50) = Inr NO_PASA_MINIMO" by auto
  from classify_categories [OF v0, of "Fin 50"]
  have c: "classify (JNum (Fin 0)) (Fin 50) = Inr SIN_COVERAGE" by auto
  from v50 v25 v0 a b c show ?thesis by simp
qed

text \<open>
  C7, as the code has it. \<open>classify\<close> fails for every coverage that is not a number, is
  NaN, is infinite, is negative or exceeds 100, and returns a category for every finite
  coverage in \<open>[0, 100]\<close> whatever the threshold. The error names the failed check: its
  message is \<open>Invalid coverage value:\<close> followed by the text of the first check that the
  coverage fails, the same for every coverage that fails this check.
\<close>

theorem classify_validation:
  "(typeof v \<noteq> ''number'' \<longrightarrow>
      classify v t = Inl (ErrorInstance ''Invalid coverage value: Coverage must be a number'')) \<and>
   classify (JNum NaN) t =
      Inl (ErrorInstance ''Invalid coverage value: Coverage cannot be NaN'') \<and>
   classify (JNum PosInf) t =
      Inl (ErrorInstance ''Invalid coverage value: Coverage must be a finite number'') \<and>
   classify (JNum NegInf) t =
      Inl (ErrorInstance ''Invalid coverage value: Coverage must be a finite number'') \<and>
   (c < 0 \<longrightarrow> classify (JNum (Fin c)) t =
      Inl (ErrorInstance ''Invalid coverage value: Coverage cannot be negative'')) \<and>
   (100 < c \<longrightarrow> classify (JNum (Fin c)) t =
      Inl (ErrorInstance ''Invalid coverage value: Coverage cannot exceed 100%'')) \<and>
   (0 \<le> c \<and> c \<le> 100 \<longrightarrow> (\<exists>category. classify (JNum (Fin c)) t = Inr category))"
proof -
  have "typeof v \<noteq> ''number'' \<Longrightarrow>
      classify v t = Inl (ErrorInstance ''Invalid coverage value: Coverage must be a number'')"
    by (cases v) (simp_all add: classify_def validateCoverageInternal_def invalid_def)
  moreover have "0 \<le> c \<Longrightarrow> c \<le> 100 \<Longrightarrow> \<exists>category. classify (JNum (Fin c)) t = Inr category"
    by (simp add: classify_valid)
  ultimately show ?thesis
    by (simp add: classify_def validateCoverageInternal_def invalid_def Number_isNaN_def
        js_gt_def)
qed

theorem classify_validation_witness:
  "typeof (JStr ''85'') \<noteq> ''number'' \<and>
   classify (JStr ''85'') (Fin 50) =
      Inl (ErrorInstance ''Invalid coverage value: Coverage must be a number'') \<and>
   (-1 :: real) < 0 \<and>
   classify (JNum (Fin (-1))) (Fin 50) =
      Inl (ErrorInstance ''Invalid coverage value: Coverage cannot be negative'') \<and>
   (100 :: real) < 101 \<and>
   classify (JNum (Fin 101)) (Fin 50) =
      Inl (ErrorInstance ''Invalid coverage value: Coverage cannot exceed 100%'') \<and>
   (0 :: real) \<le> 100 \<and> (100 :: real) \<le> 100 \<and>
   classify (JNum (Fin 100)) NaN = Inr NO_PASA_MINIMO"
proof -
  from classify_validation [of "JStr ''85''" "Fin 50" 0]
  have a: "classify (JStr ''85'') (Fin 50) =
      Inl (ErrorInstance ''Invalid coverage value: Coverage must be a number'')" by simp
  from classify_validation [of JNull "Fin 50" "-1"]
  have b: "classify (JNum (Fin (-1))) (Fin 50) =
      Inl (ErrorInstance ''Invalid coverage value: Coverage cannot be negative'')" by simp
  from classify_validation [of JNull "Fin 50" 101]
  have c: "classify (JNum (Fin 101)) (Fin 50) =
      Inl (ErrorInstance ''Invalid coverage value: Coverage cannot exceed 100%'')" by simp
  from classify_validation [of JNull NaN 100]
  obtain category where d: "classify (JNum (Fin 100)) NaN = Inr category" by auto
  have "classify (JNum (Fin 100)) NaN = Inr NO_PASA_MINIMO"
    by (simp add: classify_valid)
  with a b c show ?thesis by simp
qed

text \<open>
  C7, as the specification states it, asks for an error that names the offending value.
  The two offending values \<open>-1\<close> and \<open>-2\<close> produce one and the same error: what it names
  is the failed check.
\<close>

theorem classify_error_names_no_value:
  "classify (JNum (Fin (-1))) (Fin 50) =
      Inl (ErrorInstance ''Invalid coverage value: Coverage cannot be negative'') \<and>
   classify (JNum (Fin (-2))) (Fin 50) = classify (JNum (Fin (-1))) (Fin 50)"
  by (simp add: classify_def validateCoverageInternal_def invalid_def Number_isNaN_def)

section \<open>Filter engine: results\<close>


lemma first_seen_set [simp]: "set (first_seen xs) = set xs"
  by (induction xs rule: first_seen.induct) auto

lemma first_seen_distinct [simp]: "distinct (first_seen xs)"
  by (induction xs rule: first_seen.induct) auto

lemma first_seen_append:
  "first_seen (xs @ ys) = first_seen xs @ first_seen (filter (\<lambda>y. y \<notin> set xs) ys)"
proof (induction xs arbitrary: ys rule: first_seen.induct)
  case 1
  then show ?case by simp
next
  case (2 x xs)
  have "first_seen (filter (\<lambda>y. y \<noteq> x) (xs @ ys)) =
        first_seen (filter (\<lambda>y. y \<noteq> x) xs) @
        first_seen (filter (\<lambda>y. y \<notin> set (filter (\<lambda>y. y \<noteq> x) xs)) (filter (\<lambda>y. y \<noteq> x) ys))"
    using 2 [of "filter (\<lambda>y. y \<noteq> x) ys"] by simp
  moreover have "filter (\<lambda>y. y \<notin> set (filter (\<lambda>y. y \<noteq> x) xs)) (filter (\<lambda>y. y \<noteq> x) ys)
      = filter (\<lambda>y. y \<notin> set (x # xs)) ys"
    by (auto intro: filter_cong)
  ultimately show ?case by simp
qed

lemma foldl_set_add:
  "foldl set_add acc xs = acc @ first_seen (filter (\<lambda>x. x \<notin> set acc) xs)"
proof (induction xs arbitrary: acc)
  case Nil
  then show ?case by simp
next
  case (Cons x xs)
  show ?case
  proof (cases "x \<in> set acc")
    case True
    then show ?thesis using Cons [of acc] by (simp add: set_add_def)
  next
    case False
    have "filter (\<lambda>y. y \<noteq> x) (filter (\<lambda>x. x \<notin> set acc) xs)
        = filter (\<lambda>y. y \<notin> set (acc @ [x])) xs"
      by (auto intro: filter_cong)
    with False show ?thesis using Cons [of "acc @ [x]"] by (simp add: set_add_def)
  qed
qed

lemma or_loop:
  "foldl (\<lambda>results strategy. foldl set_add results (apply_strategy strategy projects)) acc ss =
   acc @ first_seen (filter (\<lambda>x. x \<notin> set acc)
     (concat (map (\<lambda>s. apply_strategy s projects) ss)))"
proof (induction ss arbitrary: acc)
  case Nil
  then show ?case by simp
next
  case (Cons s ss)
  let ?A = "apply_strategy s projects"
  let ?R = "concat (map (\<lambda>s. apply_strategy s projects) ss)"
  let ?acc' = "acc @ first_seen (filter (\<lambda>x. x \<notin> set acc) ?A)"
  have "filter (\<lambda>y. y \<notin> set (filter (\<lambda>x. x \<notin> set acc) ?A)) (filter (\<lambda>x. x \<notin> set acc) ?R)
      = filter (\<lambda>x. x \<notin> set ?acc') ?R"
    by (auto intro: filter_cong)
  then show ?case
    using Cons [of ?acc'] by (simp add: foldl_set_add first_seen_append)
qed


text \<open>
  C4, as the code has it. For a non-empty list of strategies, the OR-combination applied
  to a collection is the union of the strategies' outputs, each strategy applied to the
  original collection: every project once, in first-seen order across the outputs in listed
  order. For the empty list the guard at the head of \<open>apply\<close> returns the collection
  itself, unchanged.
\<close>

theorem or_apply_union:
  "(ss \<noteq> [] \<longrightarrow>
      apply_strategy (OrFilterStrategy ss) projects = union_of_outputs ss projects \<and>
      distinct (apply_strategy (OrFilterStrategy ss) projects) \<and>
      set (apply_strategy (OrFilterStrategy ss) projects) =
        (\<Union>s \<in> set ss. set (apply_strategy s projects))) \<and>
   apply_strategy (OrFilterStrategy []) projects = projects"
  by (auto simp: OrFilterStrategy_def union_of_outputs_def or_loop)

lemma demo_distinct [simp]:
  "fe_app \<noteq> fe_lib" "fe_app \<noteq> fe_core" "fe_lib \<noteq> fe_core"
  "fe_lib \<noteq> fe_app" "fe_core \<noteq> fe_app" "fe_core \<noteq> fe_lib"
  by (simp_all add: fe_app_def fe_lib_def fe_core_def)

lemma demo_coverage [simp]:
  "coveragePercent fe_app = Fin 0" "coveragePercent fe_lib = Fin 30"
  "coveragePercent fe_core = Fin 80"
  by (simp_all add: fe_app_def fe_lib_def fe_core_def)

lemma coverageAbove_apply [simp]:
  "apply_strategy (coverageAbove t) ps = filter (\<lambda>p. \<not> js_lt (coveragePercent p) (Fin t)) ps"
  by (simp add: coverageAbove_def CoverageFilterStrategy_def)

lemma coverageBelow_apply [simp]:
  "apply_strategy (coverageBelow t) ps = filter (\<lambda>p. \<not> js_gt (coveragePercent p) (Fin t)) ps"
  by (simp add: coverageBelow_def CoverageFilterStrategy_def)

theorem or_apply_union_witness:
  "[coverageBelow 50, coverageAbove 20] \<noteq> [] \<and>
   apply_strategy (OrFilterStrategy [coverageBelow 50, coverageAbove 20])
     [fe_core, fe_lib, fe_app] = [fe_lib, fe_app, fe_core] \<and>
   union_of_outputs [coverageBelow 50, coverageAbove 20] [fe_core, fe_lib, fe_app] =
     [fe_lib, fe_app, fe_core]"
proof -
  have u: "union_of_outputs [coverageBelow 50, coverageAbove 20] [fe_core, fe_lib, fe_app] =
     [fe_lib, fe_app, fe_core]"
    by (simp add: union_of_outputs_def js_gt_def)
  from or_apply_union [of "[coverageBelow 50, coverageAbove 20]" "[fe_core, fe_lib, fe_app]"]
  have "apply_strategy (OrFilterStrategy [coverageBelow 50, coverageAbove 20])
     [fe_core, fe_lib, fe_app] =
     union_of_outputs [coverageBelow 50, coverageAbove 20] [fe_core, fe_lib, fe_app]"
    by blast
  with u show ?thesis by simp
qed

text \<open>
  C4 as stated covers the empty list of strategies, where the union of no outputs is
  empty; the code returns the whole collection.
\<close>

theorem or_of_nothing_counterexample:
  "apply_strategy (OrFilterStrategy []) [fe_app, fe_lib] = [fe_app, fe_lib] \<and>
   union_of_outputs [] [fe_app, fe_lib] = []"
  by (simp add: OrFilterStrategy_def union_of_outputs_def)

lemma strategies_perform_all: "strategies (foldl perform b calls) = strategies b @ map added_by calls"
proof (induction calls arbitrary: b)
  case Nil
  then show ?case by simp
next
  case (Cons c calls)
  then show ?case
    by (cases c) (simp_all add: addStrategy_def addPredicate_def and_filters_def or_filters_def)
qed

text \<open>
  C5. After any sequence of \<open>addStrategy\<close>, \<open>addPredicate\<close>, \<open>and\<close>, \<open>or\<close> calls the
  builder holds the strategies the calls added, in order, and \<open>build\<close> returns: with no
  call, the predicate strategy \<open>NoOpFilter\<close>, whose \<open>apply\<close> returns its input; with one
  call, the strategy that call added; with more, the AND-combination of all of them, which
  threads the collection through them in addition order.
\<close>

theorem build_result:
  "strategies (perform_all calls) = map added_by calls \<and>
   (calls = [] \<longrightarrow>
      build (perform_all calls) = PredicateFilterStrategy (\<lambda>_. True) ''NoOpFilter'' \<and>
      apply_strategy (build (perform_all calls)) projects = projects) \<and>
   (length calls = 1 \<longrightarrow> build (perform_all calls) = added_by (calls ! 0)) \<and>
   (1 < length calls \<longrightarrow>
      build (perform_all calls) = AndFilterStrategy (map added_by calls) \<and>
      apply_strategy (build (perform_all calls)) projects =
        foldl (\<lambda>filtered s. apply_strategy s filtered) projects (map added_by calls))"
proof -
  have s: "strategies (perform_all calls) = map added_by calls"
    by (simp add: perform_all_def strategies_perform_all new_ProjectFilterBuilder_def)
  show ?thesis
    unfolding build_def s
    by (cases calls) (auto simp: PredicateFilterStrategy_def AndFilterStrategy_def)
qed

theorem build_result_witness:
  "build (perform_all ([] :: ProjectData builder_call list)) =
      PredicateFilterStrategy (\<lambda>_. True) ''NoOpFilter'' \<and>
   apply_strategy (build (perform_all [])) [fe_app, fe_lib] = [fe_app, fe_lib] \<and>
   length [AddStrategy (coverageAbove 40)] = 1 \<and>
   build (perform_all [AddStrategy (coverageAbove 40)]) = coverageAbove 40 \<and>
   1 < length [AddStrategy (coverageAbove 20), AddPredicate (\<lambda>p. name p \<noteq> ''fe-core'')] \<and>
   apply_strategy
     (build (perform_all [AddStrategy (coverageAbove 20), AddPredicate (\<lambda>p. name p \<noteq> ''fe-core'')]))
     [fe_app, fe_lib, fe_core] = [fe_lib]"
proof -
  let ?two = "[AddStrategy (coverageAbove 20), AddPredicate (\<lambda>p. name p \<noteq> ''fe-core'')]"
  from build_result [of "[] :: ProjectData builder_call list" "[fe_app, fe_lib]"]
  have a: "build (perform_all ([] :: ProjectData builder_call list)) =
      PredicateFilterStrategy (\<lambda>_. True) ''NoOpFilter''"
    and b: "apply_strategy (build (perform_all [])) [fe_app, fe_lib] = [fe_app, fe_lib]"
    by blast+
  have one: "length [AddStrategy (coverageAbove 40)] = 1" by simp
  from build_result [of "[AddStrategy (coverageAbove 40)]" "[]"] one
  have "build (perform_all [AddStrategy (coverageAbove 40)]) =
      added_by ([AddStrategy (coverageAbove 40)] ! 0)"
    by blast
  then have c: "build (perform_all [AddStrategy (coverageAbove 40)]) = coverageAbove 40"
    by simp
  have two: "1 < length ?two" by simp
  from build_result [of ?two "[fe_app, fe_lib, fe_core]"] two
  have "apply_strategy (build (perform_all ?two)) [fe_app, fe_lib, fe_core] =
      foldl (\<lambda>filtered s. apply_strategy s filtered) [fe_app, fe_lib, fe_core] (map added_by ?two)"
    by blast
  also have "\<dots> = [fe_lib]"
    by (simp add: PredicateFilterStrategy_def fe_app_def fe_lib_def fe_core_def)
  finally have d: "apply_strategy (build (perform_all ?two)) [fe_app, fe_lib, fe_core] = [fe_lib]" .
  from a b one c two d show ?thesis by blast
qed

section \<open>CSV reporter: results\<close>

lemma inherited_data_keys [simp]:
  "inherited ''project'' = JUndefined" "inherited ''name'' = JUndefined"
  "inherited ''coveragePercent'' = JUndefined" "inherited ''category'' = JUndefined"
  "inherited ''threshold'' = JUndefined"
  by (simp_all add: inherited_def Object_prototype_methods_def)

lemma typeof_string_iff: "typeof v = ''string'' \<longleftrightarrow> (\<exists>s. v = JStr s)"
  by (cases v) simp_all

lemma typeof_number_iff: "typeof v = ''number'' \<longleftrightarrow> (\<exists>n. v = JNum n)"
  by (cases v) simp_all

lemma get_prop_primitive: "\<not> truthy v \<Longrightarrow> get_prop v k = JUndefined"
  by (cases v) simp_all

lemma item_ok_iff: "item_ok item = has_required_fields item"
proof (cases "truthy item \<and> truthy (get_prop item ''project'')")
  case True
  then show ?thesis by (simp add: item_ok_def has_required_fields_def)
next
  case False
  then have "get_prop (get_prop item ''project'') ''name'' = JUndefined"
    by (auto simp: get_prop_primitive)
  with False show ?thesis by (auto simp: item_ok_def has_required_fields_def)
qed

text \<open>
  C6, as the code has it. \<open>validateData\<close> returns true exactly when its input is an array
  (the empty array included) in which every element has a string project name, a numeric
  coverage, a string category and a numeric threshold; the name may be the empty string.
  On every input that \<open>validateData\<close> rejects, \<open>generateDetailed\<close> and \<open>generate\<close> throw
  before any row is built or serialised.
\<close>

theorem validateData_rule:
  "validateData data =
     (case data of JArr items \<Rightarrow> list_all has_required_fields items | _ \<Rightarrow> False) \<and>
   validateData (JArr []) \<and>
   (\<not> validateData data \<longrightarrow>
      generateDetailed js now data config =
        Inl (ErrorInstance ''Invalid data provided for CSV generation'') \<and>
      generate js now data config =
        Inl (ErrorInstance ''Invalid data provided for CSV generation''))"
proof -
  have "list_all item_ok items = list_all has_required_fields items" for items
    by (simp add: item_ok_iff [abs_def])
  then show ?thesis
    by (cases data) (simp_all add: validateData_def generateDetailed_def generate_def)
qed

theorem validateData_rule_witness:
  "\<not> validateData (JArr [incomplete_item]) \<and>
   generate example_platform 0 (JArr [incomplete_item]) None =
     Inl (ErrorInstance ''Invalid data provided for CSV generation'') \<and>
   \<not> validateData JNull \<and>
   generateDetailed example_platform 0 JNull None =
     Inl (ErrorInstance ''Invalid data provided for CSV generation'') \<and>
   validateData (JArr [js_of_categorized fe_core_passes])"
proof -
  have a: "\<not> validateData (JArr [incomplete_item])"
    using validateData_rule [of "JArr [incomplete_item]" example_platform 0 None]
    by (simp add: has_required_fields_def incomplete_item_def obj_get_def)
  have b: "\<not> validateData JNull"
    using validateData_rule [of JNull example_platform 0 None] by simp
  have c: "validateData (JArr [js_of_categorized fe_core_passes])"
    using validateData_rule [of "JArr [js_of_categorized fe_core_passes]" example_platform 0 None]
    by (simp add: has_required_fields_def js_of_categorized_def js_of_project_def obj_get_def)
  from a validateData_rule [of "JArr [incomplete_item]" example_platform 0 None]
  have d: "generate example_platform 0 (JArr [incomplete_item]) None =
     Inl (ErrorInstance ''Invalid data provided for CSV generation'')" by blast
  from b validateData_rule [of JNull example_platform 0 None]
  have e: "generateDetailed example_platform 0 JNull None =
     Inl (ErrorInstance ''Invalid data provided for CSV generation'')" by blast
  from a b c d e show ?thesis by blast
qed

text \<open>
  C6 as stated demands a non-empty name. An element whose project name is the empty
  string passes \<open>validateData\<close>.
\<close>

theorem validateData_accepts_empty_name:
  "validateData (JArr [unnamed_item]) \<and>
   \<not> list_all has_required_fields_nonempty_name [unnamed_item]"
  by (simp add: validateData_def item_ok_def has_required_fields_nonempty_name_def
      unnamed_item_def obj_get_def)

subsection \<open>The column mapping\<close>

lemma map_of_replace_same:
  "k \<in> fst ` set r \<Longrightarrow>
   map_of (map (\<lambda>(k', v'). if k' = k then (k', v) else (k', v')) r) k = Some v"
proof (induction r)
  case Nil
  then show ?case by simp
next
  case (Cons a r)
  obtain k' v' where a: "a = (k', v')" by (cases a)
  show ?case
  proof (cases "k' = k")
    case True
    then show ?thesis by (simp add: a)
  next
    case False
    with Cons show ?thesis by (simp add: a)
  qed
qed

lemma map_of_replace_other:
  "c \<noteq> k \<Longrightarrow>
   map_of (map (\<lambda>(k', v'). if k' = k then (k', v) else (k', v')) r) c = map_of r c"
proof (induction r)
  case Nil
  then show ?case by simp
next
  case (Cons a r)
  obtain k' v' where a: "a = (k', v')" by (cases a)
  show ?case
  proof (cases "k' = k")
    case True
    with Cons show ?thesis by (simp add: a)
  next
    case False
    with Cons show ?thesis by (simp add: a)
  qed
qed

lemma obj_get_obj_set: "obj_get (obj_set r k v) c = (if c = k then v else obj_get r c)"
proof (cases "k \<in> fst ` set r")
  case True
  show ?thesis
  proof (cases "c = k")
    case True
    with \<open>k \<in> fst ` set r\<close> show ?thesis
      by (simp add: obj_get_def obj_set_def map_of_replace_same)
  next
    case False
    with \<open>k \<in> fst ` set r\<close> show ?thesis
      by (simp add: obj_get_def obj_set_def map_of_replace_other)
  qed
next
  case False
  then have "map_of r k = None" by (simp add: map_of_eq_None_iff)
  with False show ?thesis
    by (simp add: obj_get_def obj_set_def map_add_def split: option.splits)
qed

lemma keys_obj_set: "fst ` set (obj_set r k v) = insert k (fst ` set r)"
  by (force simp: obj_set_def split: if_splits)

lemma keys_mappedRow:
  "fst ` set (foldl (\<lambda>mappedRow (originalKey, mappedKey).
                         if obj_get row originalKey \<noteq> JUndefined
                         then obj_assign mappedRow mappedKey (obj_get row originalKey)
                         else mappedRow) acc mapping)
   \<subseteq> fst ` set acc \<union> snd ` set mapping"
proof (induction mapping arbitrary: acc)
  case Nil
  then show ?case by simp
next
  case (Cons km mapping)
  obtain k m where km: "km = (k, m)" by (cases km)
  show ?case
    using Cons [of "if obj_get row k \<noteq> JUndefined then obj_assign acc m (obj_get row k) else acc"]
    by (auto simp: km keys_obj_set obj_assign_def split: if_splits)
qed

lemma obj_get_spread:
  "c \<notin> fst ` set m \<Longrightarrow> obj_get (foldl (\<lambda>r (k, v). obj_set r k v) row m) c = obj_get row c"
proof (induction m arbitrary: row)
  case Nil
  then show ?case by simp
next
  case (Cons kv m)
  obtain k v where kv: "kv = (k, v)" by (cases kv)
  from Cons.prems have "c \<noteq> k" "c \<notin> fst ` set m" by (auto simp: kv)
  then show ?case using Cons.IH [of "obj_set row k v"] by (simp add: kv obj_get_obj_set)
qed

lemma transformItem_mapping:
  assumes "snd ` set (merged_columnMapping cfg) \<inter> set (merged_headers cfg) = {}"
  shows "rel_sum (=) (agree (merged_headers cfg))
           (transformItem js cfg item) (transformItem js (cfg\<lparr>merged_columnMapping := []\<rparr>) item)"
proof (cases "formatCoverage js (get_prop (get_prop item ''project'') ''coveragePercent'')
             (merged_numberFormat cfg)")
  case (Inl e)
  then show ?thesis by (simp add: transformItem_def)
next
  case (Inr coverage)
  have "c \<notin> fst ` set (foldl (\<lambda>mappedRow (originalKey, mappedKey).
                         if obj_get row originalKey \<noteq> JUndefined
                         then obj_assign mappedRow mappedKey (obj_get row originalKey)
                         else mappedRow) [] (merged_columnMapping cfg))"
    if "c \<in> set (merged_headers cfg)" for c row
    using keys_mappedRow [of row "[]" "merged_columnMapping cfg"] assms that by auto
  then show ?thesis
    using Inr by (simp add: transformItem_def Let_def agree_def obj_get_spread)
qed

lemma transformData_mapping:
  assumes "snd ` set (merged_columnMapping cfg) \<inter> set (merged_headers cfg) = {}"
  shows "rel_sum (=) (list_all2 (agree (merged_headers cfg)))
           (transformDataToCsvRows js items cfg)
           (transformDataToCsvRows js items (cfg\<lparr>merged_columnMapping := []\<rparr>))"
proof (induction items)
  case Nil
  then show ?case by simp
next
  case (Cons item items)
  from transformItem_mapping [OF assms, of js item] Cons show ?case
    by (auto simp: rel_sum.simps split: sum.splits)
qed

lemma unparse_agree:
  assumes "list_all2 (agree columns) rows' rows"
  shows "unparse js rows' delim header columns = unparse js rows delim header columns"
proof -
  have "map (\<lambda>row. join delim (map (\<lambda>c. csv_field delim (cell_text js (obj_get row c))) columns)) rows'
      = map (\<lambda>row. join delim (map (\<lambda>c. csv_field delim (cell_text js (obj_get row c))) columns)) rows"
    using assms
  proof (induction rule: list_all2_induct)
    case Nil
    then show ?case by simp
  next
    case (Cons r' rs' r rs)
    from Cons.hyps(1) have "map (\<lambda>c. csv_field delim (cell_text js (obj_get r' c))) columns
      = map (\<lambda>c. csv_field delim (cell_text js (obj_get r c))) columns"
      by (simp add: agree_def)
    then have "join delim (map (\<lambda>c. csv_field delim (cell_text js (obj_get r' c))) columns)
      = join delim (map (\<lambda>c. csv_field delim (cell_text js (obj_get r c))) columns)"
      by (rule arg_cong)
    with Cons.IH show ?case by simp
  qed
  moreover from assms have "rows' = [] \<longleftrightarrow> rows = []" by (cases rows'; cases rows) simp_all
  ultimately show ?thesis by (simp add: unparse_def)
qed

lemma merge_config_mapping:
  "merge_config (Some (config\<lparr>columnMapping := Some mapping\<rparr>)) =
     (merge_config (Some config))\<lparr>merged_columnMapping := mapping\<rparr>"
  "merge_config (Some (config\<lparr>columnMapping := None\<rparr>)) =
     (merge_config (Some config))\<lparr>merged_columnMapping := []\<rparr>"
  by (simp_all add: DEFAULT_CSV_CONFIG_def)

text \<open>A source key that is not a header but names an inherited method is read from the
  prototype: the row gains the method under the mapped name.\<close>

lemma inherited_source_key:
  "transformItem example_platform
     (merge_config (Some (no_options\<lparr>columnMapping := Some [(''toString'', ''text'')]\<rparr>)))
     (js_of_categorized fe_core_passes) =
   Inr [(''repository'', JStr ''fe-core''), (''coverage_percent'', JStr ''80.00''),
        (''category'', JStr (category_label SI_PASA_MINIMO)), (''text'', JFun ''toString'')]"
  by (simp add: transformItem_def formatCoverage_def js_of_categorized_def js_of_project_def
      fe_core_passes_def fe_core_def obj_get_def obj_set_def obj_assign_def no_options_def
      DEFAULT_CSV_CONFIG_def example_platform_def header_key_def inherited_def
      Object_prototype_methods_def)

text \<open>
  What the column mapping does to the output: every row keeps its header-keyed fields and
  gains a copy of a field under each mapped name, and the serialiser is handed the
  configured headers as its columns. So a mapping whose mapped names are none of the
  configured headers leaves the generated text as it is without the mapping.
\<close>

theorem columnMapping_no_effect:
  assumes "snd ` set mapping \<inter> set (merged_headers (merge_config (Some config))) = {}"
  shows "generate js now data (Some (config\<lparr>columnMapping := Some mapping\<rparr>)) =
         generate js now data (Some (config\<lparr>columnMapping := None\<rparr>))"
proof -
  let ?cfg = "(merge_config (Some config))\<lparr>merged_columnMapping := mapping\<rparr>"
  have hs: "merged_headers ?cfg = merged_headers (merge_config (Some config))" by simp
  have "snd ` set (merged_columnMapping ?cfg) \<inter> set (merged_headers ?cfg) = {}"
    using assms by simp
  from transformData_mapping [OF this, of js "array_items data"]
  have "rel_sum (=) (list_all2 (agree (merged_headers (merge_config (Some config)))))
           (transformDataToCsvRows js (array_items data) ?cfg)
           (transformDataToCsvRows js (array_items data)
              ((merge_config (Some config))\<lparr>merged_columnMapping := []\<rparr>))"
    by simp
  then show ?thesis
    unfolding generate_def generateDetailed_def merge_config_mapping Let_def
    by (auto simp: rel_sum.simps unparse_agree split: sum.splits)
qed


lemma generate_fe_core_plain:
  "generate example_platform 0 (JArr [js_of_categorized fe_core_passes])
      (Some (no_options\<lparr>columnMapping := None\<rparr>)) =
    Inr (''repository,coverage_percent,category'' @ [CHR 0x0D, CHR 0x0A] @
         ''fe-core,80.00,Si pasa el m'' @ [CHR 0xED] @ ''nimo esperado'')"
  by (simp add: generate_def generateDetailed_def validateData_def item_ok_def
      js_of_categorized_def js_of_project_def fe_core_passes_def fe_core_def obj_get_def
      obj_set_def obj_assign_def no_options_def DEFAULT_CSV_CONFIG_def transformItem_def formatCoverage_def
      example_platform_def header_key_def unparse_def csv_field_def needs_quotes_def)

theorem columnMapping_no_effect_witness:
  "snd ` set [(''repository'', ''repo'')] \<inter>
      set (merged_headers (merge_config (Some no_options))) = {} \<and>
   generate example_platform 0 (JArr [js_of_categorized fe_core_passes])
      (Some (no_options\<lparr>columnMapping := Some [(''repository'', ''repo'')]\<rparr>)) =
    Inr (''repository,coverage_percent,category'' @ [CHR 0x0D, CHR 0x0A] @
         ''fe-core,80.00,Si pasa el m'' @ [CHR 0xED] @ ''nimo esperado'')"
proof -
  have h: "snd ` set [(''repository'', ''repo'')] \<inter>
      set (merged_headers (merge_config (Some no_options))) = {}"
    by (simp add: no_options_def DEFAULT_CSV_CONFIG_def)
  from columnMapping_no_effect [OF h, of example_platform 0 "JArr [js_of_categorized fe_core_passes]"]
    generate_fe_core_plain h
  show ?thesis by simp
qed

text \<open>
  C8 says that a column mapping renames the mapped headers and leaves the row values
  alone. Evaluated on the one-project report of \<open>fe-core\<close> with the default headers: the
  mapping of \<open>repository\<close> to \<open>repo\<close> leaves the header row \<open>repository,coverage_percent,category\<close>
  (no \<open>repo\<close> column appears), and the mapping of \<open>repository\<close> to \<open>category\<close> changes no
  header and overwrites the category of the row with the project name.
\<close>

theorem columnMapping_renames_nothing:
  "generate example_platform 0 (JArr [js_of_categorized fe_core_passes])
      (Some (no_options\<lparr>columnMapping := Some [(''repository'', ''repo'')]\<rparr>)) =
    Inr (''repository,coverage_percent,category'' @ [CHR 0x0D, CHR 0x0A] @
         ''fe-core,80.00,Si pasa el m'' @ [CHR 0xED] @ ''nimo esperado'') \<and>
   generate example_platform 0 (JArr [js_of_categorized fe_core_passes])
      (Some (no_options\<lparr>columnMapping := Some [(''repository'', ''category'')]\<rparr>)) =
    Inr (''repository,coverage_percent,category'' @ [CHR 0x0D, CHR 0x0A] @
         ''fe-core,80.00,fe-core'')"
  by (simp add: generate_def generateDetailed_def validateData_def item_ok_def
      js_of_categorized_def js_of_project_def fe_core_passes_def fe_core_def obj_get_def
      obj_set_def obj_assign_def no_options_def DEFAULT_CSV_CONFIG_def transformItem_def formatCoverage_def
      example_platform_def header_key_def unparse_def csv_field_def needs_quotes_def)

section \<open>Orchestrator: results\<close>

lemma wrapError_literal:
  "wrapError e ph =
     ReportErrorLiteral ''ReportError''
       (''Error in '' @ phase_name ph @ '' phase: '' @ message_or ''Unknown error occurred'' e)
       ph (cause_of e)"
  by (simp add: wrapError_def)

lemma example_config_valid [simp]:
  "validateConfig example_platform example_config = Inr True"
  "validateConfig example_platform output_config = Inr True"
  "validateConfig example_platform too_many_digits = Inr True"
  by (simp_all add: validateConfig_def validateConfig_try_def example_config_def
      output_config_def too_many_digits_def example_platform_def js_gt_def)

lemma example_config_fields [simp]:
  "token (sonarqube example_config) = ''secret''"
  "classification example_config = \<lparr>threshold = Fin 50, strictZeroClassification = None\<rparr>"
  "csv example_config = no_options"
  "outputPath example_config = None"
  "token (sonarqube output_config) = ''secret''"
  "classification output_config = \<lparr>threshold = Fin 50, strictZeroClassification = None\<rparr>"
  "csv output_config = no_options"
  "outputPath output_config = Some ''report.csv''"
  "token (sonarqube too_many_digits) = ''secret''"
  "classification too_many_digits = \<lparr>threshold = Fin 50, strictZeroClassification = None\<rparr>"
  "outputPath too_many_digits = None"
  by (simp_all add: example_config_def output_config_def too_many_digits_def)

lemma classify_fe_core:
  assumes "classifier_classify deps = classify"
  shows "classifyProjects deps [fe_core] \<lparr>threshold = Fin 50, strictZeroClassification = None\<rparr> =
     ([OnProjectProcessed fe_core_passes 1 1], Inr [fe_core_passes])"
  using assms
  by (simp add: classifyProjects_def classify_valid fe_core_passes_def fe_core_def Let_def)


lemma filter_examples:
  "applyFilters [\<lambda>ps. Inr (apply_strategy (coverageAbove 40) ps)] [fe_app, fe_lib, fe_core] =
     Inr [fe_core]"
  "applyFilters [\<lambda>ps. Inr (apply_strategy (coverageAbove 40) ps)] [fe_core, broken_project] =
     Inr [fe_core, broken_project]"
  by (simp_all add: broken_project_def)

lemma csv_fe_core:
  "PapaparseCsvReporter_generate example_platform 0 [fe_core_passes] no_options =
    Inr (''repository,coverage_percent,category'' @ [CHR 0x0D, CHR 0x0A] @
         ''fe-core,80.00,Si pasa el m'' @ [CHR 0xED] @ ''nimo esperado'')"
  by (simp add: PapaparseCsvReporter_generate_def
      generate_def generateDetailed_def validateData_def item_ok_def
      js_of_categorized_def js_of_project_def fe_core_passes_def fe_core_def obj_get_def
      obj_set_def obj_assign_def no_options_def DEFAULT_CSV_CONFIG_def transformItem_def formatCoverage_def
      example_platform_def header_key_def unparse_def csv_field_def needs_quotes_def)


lemma example_deps_fields [simp]:
  "client_authenticate example_deps = (\<lambda>t. Inr ())"
  "client_fetchProjects example_deps = Inr [fe_app, fe_lib, fe_core]"
  "injected_filters example_deps = [\<lambda>ps. Inr (apply_strategy (coverageAbove 40) ps)]"
  "classifier_classify example_deps = classify"
  "reporter_generate example_deps = PapaparseCsvReporter_generate example_platform 0"
  "reporter_writeToFile example_deps = writeToFile (\<lambda>path text. Inr ())"
  by (simp_all add: example_deps_def)

text \<open>
  C2, as the code has it. When the run reaches the optional write and the write fails,
  the failure is surfaced: \<open>generateReport\<close> throws the wrapped error, tagged \<open>generate\<close>,
  with the message and the cause of the write failure. Nothing else reaches the caller:
  no result is returned and the completion callback is not called, so the CSV content
  built in memory is not reported.
\<close>

theorem write_failure_loses_report:
  assumes "validateConfig js config = Inr ok"
    and "client_authenticate deps (token (sonarqube config)) = Inr ()"
    and "client_fetchProjects deps = Inr projects"
    and "applyFilters (injected_filters deps) projects = Inr filtered"
    and "classifyProjects deps filtered (classification config) = (evs, Inr categorized)"
    and "reporter_generate deps categorized (csv config) = Inr csv_text"
    and "outputPath config = Some path" and "path \<noteq> []"
    and "reporter_writeToFile deps csv_text path = Inl e"
  shows "generateReport js deps clock config =
           ([Authenticate (token (sonarqube config)), OnFetchingProjects, FetchProjects,
             OnFiltering (length projects) (length filtered)] @ evs @
            [OnGeneratingCsv, WriteToFile csv_text path],
            Inl (ReportErrorLiteral ''ReportError''
                   (''Error in generate phase: '' @ message_or ''Unknown error occurred'' e)
                   Generate (cause_of e))) \<and>
         reported_csv (snd (generateReport js deps clock config)) = None"
  using assms by (simp add: generateReport_def generateReport_try_def wrapError_literal)



lemma unwritable_run:
  "generateReport example_platform unwritable_deps example_clock output_config =
     ([Authenticate ''secret'', OnFetchingProjects, FetchProjects, OnFiltering 3 1,
       OnProjectProcessed fe_core_passes 1 1, OnGeneratingCsv,
       WriteToFile (''repository,coverage_percent,category'' @ [CHR 0x0D, CHR 0x0A] @
         ''fe-core,80.00,Si pasa el m'' @ [CHR 0xED] @ ''nimo esperado'') ''report.csv''],
      Inl (ReportErrorLiteral ''ReportError''
        ''Error in generate phase: Failed to write CSV file to report.csv: EACCES: permission denied''
        Generate (Some ''Failed to write CSV file to report.csv: EACCES: permission denied'')))"
  by (simp add: generateReport_def generateReport_try_def unwritable_deps_def filter_examples
      classify_fe_core csv_fe_core writeToFile_def wrapError_literal)


theorem write_failure_loses_report_witness:
  "validateConfig example_platform output_config = Inr True \<and>
   reporter_generate unwritable_deps [fe_core_passes] (csv output_config) =
     Inr (''repository,coverage_percent,category'' @ [CHR 0x0D, CHR 0x0A] @
          ''fe-core,80.00,Si pasa el m'' @ [CHR 0xED] @ ''nimo esperado'') \<and>
   outputPath output_config = Some ''report.csv'' \<and>
   reporter_writeToFile unwritable_deps
     (''repository,coverage_percent,category'' @ [CHR 0x0D, CHR 0x0A] @
          ''fe-core,80.00,Si pasa el m'' @ [CHR 0xED] @ ''nimo esperado'') ''report.csv'' =
     Inl (ErrorInstance ''Failed to write CSV file to report.csv: EACCES: permission denied'') \<and>
   snd (generateReport example_platform unwritable_deps example_clock output_config) =
     Inl (ReportErrorLiteral ''ReportError''
        ''Error in generate phase: Failed to write CSV file to report.csv: EACCES: permission denied''
        Generate (Some ''Failed to write CSV file to report.csv: EACCES: permission denied'')) \<and>
   reported_csv (snd (generateReport example_platform unwritable_deps example_clock output_config)) = None"
proof -
  let ?csv = "''repository,coverage_percent,category'' @ [CHR 0x0D, CHR 0x0A] @
          ''fe-core,80.00,Si pasa el m'' @ [CHR 0xED] @ ''nimo esperado''"
  have v: "validateConfig example_platform output_config = Inr True" by simp
  have a: "client_authenticate unwritable_deps (token (sonarqube output_config)) = Inr ()"
    by (simp add: unwritable_deps_def)
  have f: "client_fetchProjects unwritable_deps = Inr [fe_app, fe_lib, fe_core]"
    by (simp add: unwritable_deps_def)
  have fl: "applyFilters (injected_filters unwritable_deps) [fe_app, fe_lib, fe_core] = Inr [fe_core]"
    by (simp add: unwritable_deps_def filter_examples)
  have c: "classifyProjects unwritable_deps [fe_core] (classification output_config) =
      ([OnProjectProcessed fe_core_passes 1 1], Inr [fe_core_passes])"
    by (simp add: unwritable_deps_def classify_fe_core)
  have g: "reporter_generate unwritable_deps [fe_core_passes] (csv output_config) = Inr ?csv"
    by (simp add: unwritable_deps_def csv_fe_core)
  have p: "outputPath output_config = Some ''report.csv''" "''report.csv'' \<noteq> []" by simp_all
  have w: "reporter_writeToFile unwritable_deps ?csv ''report.csv'' =
      Inl (ErrorInstance ''Failed to write CSV file to report.csv: EACCES: permission denied'')"
    by (simp add: unwritable_deps_def writeToFile_def)
  from write_failure_loses_report [OF v a f fl c g p w, of example_clock]
  have "snd (generateReport example_platform unwritable_deps example_clock output_config) =
     Inl (ReportErrorLiteral ''ReportError''
        ''Error in generate phase: Failed to write CSV file to report.csv: EACCES: permission denied''
        Generate (Some ''Failed to write CSV file to report.csv: EACCES: permission denied''))"
    and "reported_csv (snd (generateReport example_platform unwritable_deps example_clock output_config)) = None"
    by simp_all
  with v g p w show ?thesis by blast
qed

text \<open>
  C2 as stated promises the caller the in-memory CSV content even when the write fails.
  In the example run the reporter has generated the content, the write is refused, and the
  outcome is the thrown error alone, which holds no CSV content.
\<close>

theorem write_failure_reports_no_csv:
  "reporter_generate unwritable_deps [fe_core_passes] (csv output_config) =
     Inr (''repository,coverage_percent,category'' @ [CHR 0x0D, CHR 0x0A] @
          ''fe-core,80.00,Si pasa el m'' @ [CHR 0xED] @ ''nimo esperado'') \<and>
   snd (generateReport example_platform unwritable_deps example_clock output_config) =
     Inl (ReportErrorLiteral ''ReportError''
        ''Error in generate phase: Failed to write CSV file to report.csv: EACCES: permission denied''
        Generate (Some ''Failed to write CSV file to report.csv: EACCES: permission denied'')) \<and>
   reported_csv (snd (generateReport example_platform unwritable_deps example_clock output_config)) = None"
  by (simp add: unwritable_run) (simp add: unwritable_deps_def csv_fe_core)

subsection \<open>Failures\<close>




lemma example_run:
  "generateReport example_platform example_deps example_clock example_config =
     ([Authenticate ''secret'', OnFetchingProjects, FetchProjects, OnFiltering 3 1,
       OnProjectProcessed fe_core_passes 1 1, OnGeneratingCsv,
       OnComplete
         \<lparr>csvContent = ''repository,coverage_percent,category'' @ [CHR 0x0D, CHR 0x0A] @
            ''fe-core,80.00,Si pasa el m'' @ [CHR 0xED] @ ''nimo esperado'',
          projectCount = 1, categoryCounts = [(SI_PASA_MINIMO, 1)], generatedAt = 1007,
          report_config = example_config, processingTime = 7\<rparr>],
      Inr \<lparr>csvContent = ''repository,coverage_percent,category'' @ [CHR 0x0D, CHR 0x0A] @
            ''fe-core,80.00,Si pasa el m'' @ [CHR 0xED] @ ''nimo esperado'',
          projectCount = 1, categoryCounts = [(SI_PASA_MINIMO, 1)], generatedAt = 1007,
          report_config = example_config, processingTime = 7\<rparr>)"
proof -
  have "category fe_core_passes = SI_PASA_MINIMO" by (simp add: fe_core_passes_def)
  then show ?thesis
    by (simp add: generateReport_def generateReport_try_def filter_examples
        classify_fe_core csv_fe_core writeToFile_def calculateCategoryCounts_def
        count_category_def example_clock_def Let_def)
qed





lemma generateReport_throws:
  assumes "snd (generateReport js deps clock config) = Inl x"
  shows "\<exists>e. x = wrapError e Generate"
  using assms
  by (cases "generateReport_try js deps clock config")
    (auto simp: generateReport_def split: sum.splits)

lemma validateConfig_try_throws_Error:
  "validateConfig_try js config = Inl e \<Longrightarrow> \<exists>m. e = ErrorInstance m"
  by (auto simp: validateConfig_try_def split: if_splits)

text \<open>
  C10, as the code has it. Every value thrown by \<open>generateReport\<close> and by
  \<open>validateConfig\<close> is the object literal of \<open>wrapError\<close>: name \<open>ReportError\<close>, a message
  that starts with the phase, the phase (\<open>generate\<close>, respectively \<open>config\<close>) and a cause.
  It is not an instance of \<open>Error\<close>, hence not of the class \<open>ReportError\<close>, which extends
  \<open>Error\<close>. The cause is the caught value when that is an \<open>Error\<close>, whose message then
  follows the prefix; for any other caught value the cause is \<open>undefined\<close> and the message
  is \<open>Unknown error occurred\<close>. The caught value is what the \<open>try\<close> block throws, for
  instance the rejection of \<open>fetchProjects\<close>; \<open>validateConfig\<close> only ever catches the
  \<open>Error\<close> of a failed check.
\<close>

theorem thrown_values_are_literals:
  "(snd (generateReport js deps clock config) = Inl x \<longrightarrow>
      (\<exists>e. snd (generateReport_try js deps clock config) = Inl e) \<and>
      (\<exists>m. x = ReportErrorLiteral ''ReportError'' (''Error in generate phase: '' @ m) Generate
                (err_cause x) \<and>
           (err_cause x = Some m \<or> err_cause x = None \<and> m = ''Unknown error occurred'')) \<and>
      \<not> instanceof_Error x) \<and>
   (snd (generateReport_try js deps clock config) = Inl (ErrorInstance m) \<longrightarrow>
      snd (generateReport js deps clock config) =
        Inl (ReportErrorLiteral ''ReportError'' (''Error in generate phase: '' @ m) Generate (Some m))) \<and>
   (snd (generateReport_try js deps clock config) = Inl e \<and> \<not> instanceof_Error e \<longrightarrow>
      snd (generateReport js deps clock config) =
        Inl (ReportErrorLiteral ''ReportError'' ''Error in generate phase: Unknown error occurred''
               Generate None)) \<and>
   (validateConfig js config = Inr ok \<and>
    client_authenticate deps (token (sonarqube config)) = Inr () \<and>
    client_fetchProjects deps = Inl (ErrorInstance m) \<longrightarrow>
      snd (generateReport js deps clock config) =
        Inl (ReportErrorLiteral ''ReportError'' (''Error in generate phase: '' @ m) Generate (Some m))) \<and>
   (validateConfig js config = Inr ok \<and>
    client_authenticate deps (token (sonarqube config)) = Inr () \<and>
    client_fetchProjects deps = Inl e \<and> \<not> instanceof_Error e \<longrightarrow>
      snd (generateReport js deps clock config) =
        Inl (ReportErrorLiteral ''ReportError'' ''Error in generate phase: Unknown error occurred''
               Generate None)) \<and>
   (validateConfig js config = Inl y \<longrightarrow>
      (\<exists>m. validateConfig_try js config = Inl (ErrorInstance m) \<and>
           y = ReportErrorLiteral ''ReportError'' (''Error in config phase: '' @ m) Config (Some m)) \<and>
      \<not> instanceof_Error y) \<and>
   (validateConfig_try js config = Inl (ErrorInstance m) \<longrightarrow>
      validateConfig js config =
        Inl (ReportErrorLiteral ''ReportError'' (''Error in config phase: '' @ m) Config (Some m)))"
proof -
  have g: "(\<exists>e. snd (generateReport_try js deps clock config) = Inl e) \<and>
      (\<exists>m. x = ReportErrorLiteral ''ReportError'' (''Error in generate phase: '' @ m) Generate
                (err_cause x) \<and>
           (err_cause x = Some m \<or> err_cause x = None \<and> m = ''Unknown error occurred'')) \<and>
      \<not> instanceof_Error x"
    if "snd (generateReport js deps clock config) = Inl x"
  proof -
    from that obtain e where e: "snd (generateReport_try js deps clock config) = Inl e"
      "x = wrapError e Generate"
      by (cases "generateReport_try js deps clock config")
        (auto simp: generateReport_def split: sum.splits)
    from e(2) have "(\<exists>m. x = ReportErrorLiteral ''ReportError'' (''Error in generate phase: '' @ m)
          Generate (err_cause x) \<and>
        (err_cause x = Some m \<or> err_cause x = None \<and> m = ''Unknown error occurred'')) \<and>
        \<not> instanceof_Error x"
      by (cases e) (simp_all add: wrapError_def)
    with e(1) show ?thesis by blast
  qed
  have t: "snd (generateReport js deps clock config) = Inl (wrapError e' Generate)"
    if "snd (generateReport_try js deps clock config) = Inl e'" for e'
    using that
    by (cases "generateReport_try js deps clock config") (simp add: generateReport_def)
  have tE: "snd (generateReport js deps clock config) =
        Inl (ReportErrorLiteral ''ReportError'' (''Error in generate phase: '' @ m) Generate (Some m))"
    if "snd (generateReport_try js deps clock config) = Inl (ErrorInstance m)"
    using t [OF that] by (simp add: wrapError_def)
  have tN: "snd (generateReport js deps clock config) =
        Inl (ReportErrorLiteral ''ReportError'' ''Error in generate phase: Unknown error occurred''
               Generate None)"
    if "snd (generateReport_try js deps clock config) = Inl e" "\<not> instanceof_Error e"
    using t [OF that(1)] that(2) by (cases e) (simp_all add: wrapError_def)
  have f: "snd (generateReport_try js deps clock config) = Inl e'"
    if "validateConfig js config = Inr ok"
      "client_authenticate deps (token (sonarqube config)) = Inr ()"
      "client_fetchProjects deps = Inl e'" for e'
    using that by (simp add: generateReport_try_def)
  have fE: "snd (generateReport js deps clock config) =
        Inl (ReportErrorLiteral ''ReportError'' (''Error in generate phase: '' @ m) Generate (Some m))"
    if "validateConfig js config = Inr ok"
      "client_authenticate deps (token (sonarqube config)) = Inr ()"
      "client_fetchProjects deps = Inl (ErrorInstance m)"
    using t [OF f [OF that]] by (simp add: wrapError_def)
  have fN: "snd (generateReport js deps clock config) =
        Inl (ReportErrorLiteral ''ReportError'' ''Error in generate phase: Unknown error occurred''
               Generate None)"
    if "validateConfig js config = Inr ok"
      "client_authenticate deps (token (sonarqube config)) = Inr ()"
      "client_fetchProjects deps = Inl e" "\<not> instanceof_Error e"
    using t [OF f [OF that(1,2,3)]] that(4) by (cases e) (simp_all add: wrapError_def)
  have c: "(\<exists>m. validateConfig_try js config = Inl (ErrorInstance m) \<and>
           y = ReportErrorLiteral ''ReportError'' (''Error in config phase: '' @ m) Config (Some m)) \<and>
      \<not> instanceof_Error y"
    if "validateConfig js config = Inl y"
  proof -
    from that obtain e where e: "validateConfig_try js config = Inl e" "y = wrapError e Config"
      by (auto simp: validateConfig_def split: sum.splits)
    from e(1) obtain m where "e = ErrorInstance m"
      using validateConfig_try_throws_Error by blast
    with e show ?thesis by (simp add: wrapError_def)
  qed
  have cE: "validateConfig js config =
        Inl (ReportErrorLiteral ''ReportError'' (''Error in config phase: '' @ m) Config (Some m))"
    if "validateConfig_try js config = Inl (ErrorInstance m)"
    using that by (simp add: validateConfig_def wrapError_def)
  from g tE tN fE fN c cE show ?thesis by blast
qed

lemma string_rejection_run:
  "snd (generateReport example_platform fetch_rejects_with_string example_clock example_config) =
     Inl (ReportErrorLiteral ''ReportError'' ''Error in generate phase: Unknown error occurred''
            Generate None)"
  by (simp add: generateReport_def generateReport_try_def fetch_rejects_with_string_def
      wrapError_literal)

lemma no_base_url_run:
  "validateConfig example_platform no_base_url =
     Inl (ReportErrorLiteral ''ReportError'' ''Error in config phase: SonarQube baseUrl is required''
            Config (Some ''SonarQube baseUrl is required''))"
  "generateReport example_platform example_deps example_clock no_base_url =
     ([], Inl (ReportErrorLiteral ''ReportError''
                 ''Error in generate phase: Unknown error occurred'' Generate None))"
  by (simp_all add: generateReport_def generateReport_try_def validateConfig_def
      validateConfig_try_def no_base_url_def wrapError_literal)

theorem thrown_values_are_literals_witness:
  "validateConfig example_platform example_config = Inr True \<and>
   client_fetchProjects fetch_fails = Inl (ErrorInstance ''Network error: ECONNREFUSED'') \<and>
   snd (generateReport_try example_platform fetch_fails example_clock example_config) =
     Inl (ErrorInstance ''Network error: ECONNREFUSED'') \<and>
   snd (generateReport example_platform fetch_fails example_clock example_config) =
     Inl (ReportErrorLiteral ''ReportError''
            ''Error in generate phase: Network error: ECONNREFUSED'' Generate
            (Some ''Network error: ECONNREFUSED'')) \<and>
   \<not> instanceof_Error (ReportErrorLiteral ''ReportError''
            ''Error in generate phase: Network error: ECONNREFUSED'' Generate
            (Some ''Network error: ECONNREFUSED'')) \<and>
   client_fetchProjects fetch_rejects_with_string = Inl (NonError (JStr ''timeout'')) \<and>
   \<not> instanceof_Error (NonError (JStr ''timeout'')) \<and>
   snd (generateReport example_platform fetch_rejects_with_string example_clock example_config) =
     Inl (ReportErrorLiteral ''ReportError'' ''Error in generate phase: Unknown error occurred''
            Generate None) \<and>
   validateConfig_try example_platform no_base_url =
     Inl (ErrorInstance ''SonarQube baseUrl is required'') \<and>
   validateConfig example_platform no_base_url =
     Inl (ReportErrorLiteral ''ReportError'' ''Error in config phase: SonarQube baseUrl is required''
            Config (Some ''SonarQube baseUrl is required'')) \<and>
   \<not> instanceof_Error (ReportErrorLiteral ''ReportError''
            ''Error in config phase: SonarQube baseUrl is required''
            Config (Some ''SonarQube baseUrl is required''))"
proof -
  let ?tok = "token (sonarqube example_config)"
  let ?x = "ReportErrorLiteral ''ReportError''
            ''Error in generate phase: Network error: ECONNREFUSED'' Generate
            (Some ''Network error: ECONNREFUSED'')"
  let ?y = "ReportErrorLiteral ''ReportError''
            ''Error in config phase: SonarQube baseUrl is required''
            Config (Some ''SonarQube baseUrl is required'')"
  have v: "validateConfig example_platform example_config = Inr True" by simp
  \<comment> \<open>a rejection with an \<open>Error\<close>\<close>
  have a: "client_authenticate fetch_fails ?tok = Inr ()"
    and f: "client_fetchProjects fetch_fails = Inl (ErrorInstance ''Network error: ECONNREFUSED'')"
    by (simp_all add: fetch_fails_def)
  have t: "snd (generateReport_try example_platform fetch_fails example_clock example_config) =
      Inl (ErrorInstance ''Network error: ECONNREFUSED'')"
    by (simp add: generateReport_try_def fetch_fails_def)
  note fetch_Error = thrown_values_are_literals [where js = example_platform
      and deps = fetch_fails and clock = example_clock and config = example_config and ok = True
      and m = "''Network error: ECONNREFUSED''",
      THEN conjunct2, THEN conjunct2, THEN conjunct2, THEN conjunct1, rule_format]
  have "snd (generateReport example_platform fetch_fails example_clock example_config) =
      Inl (ReportErrorLiteral ''ReportError''
             (''Error in generate phase: '' @ ''Network error: ECONNREFUSED'') Generate
             (Some ''Network error: ECONNREFUSED''))"
    by (rule fetch_Error) (intro conjI; fact)
  then have x: "snd (generateReport example_platform fetch_fails example_clock example_config) =
      Inl ?x"
    by simp
  note thrown = thrown_values_are_literals [where js = example_platform
      and deps = fetch_fails and clock = example_clock and config = example_config and x = ?x,
      THEN conjunct1, rule_format]
  have nx: "\<not> instanceof_Error ?x"
    using thrown [OF x] by (rule conjunct2 [THEN conjunct2])
  \<comment> \<open>a rejection with a string\<close>
  have a': "client_authenticate fetch_rejects_with_string ?tok = Inr ()"
    and f': "client_fetchProjects fetch_rejects_with_string = Inl (NonError (JStr ''timeout''))"
    and n': "\<not> instanceof_Error (NonError (JStr ''timeout''))"
    by (simp_all add: fetch_rejects_with_string_def)
  note fetch_other = thrown_values_are_literals [where js = example_platform
      and deps = fetch_rejects_with_string and clock = example_clock and config = example_config
      and ok = True and e = "NonError (JStr ''timeout'')",
      THEN conjunct2, THEN conjunct2, THEN conjunct2, THEN conjunct2, THEN conjunct1, rule_format]
  have s: "snd (generateReport example_platform fetch_rejects_with_string example_clock
      example_config) =
     Inl (ReportErrorLiteral ''ReportError'' ''Error in generate phase: Unknown error occurred''
            Generate None)"
    by (rule fetch_other) (intro conjI; fact)
  \<comment> \<open>a failed check of the configuration\<close>
  have c: "validateConfig_try example_platform no_base_url =
     Inl (ErrorInstance ''SonarQube baseUrl is required'')"
    by (simp add: validateConfig_try_def no_base_url_def)
  note config_Error = thrown_values_are_literals [where js = example_platform
      and config = no_base_url and m = "''SonarQube baseUrl is required''",
      THEN conjunct2, THEN conjunct2, THEN conjunct2, THEN conjunct2, THEN conjunct2,
      THEN conjunct2, rule_format]
  have "validateConfig example_platform no_base_url =
      Inl (ReportErrorLiteral ''ReportError''
             (''Error in config phase: '' @ ''SonarQube baseUrl is required'') Config
             (Some ''SonarQube baseUrl is required''))"
    by (rule config_Error) fact
  then have y: "validateConfig example_platform no_base_url = Inl ?y"
    by simp
  note config_thrown = thrown_values_are_literals [where js = example_platform
      and config = no_base_url and y = ?y,
      THEN conjunct2, THEN conjunct2, THEN conjunct2, THEN conjunct2, THEN conjunct2,
      THEN conjunct1, rule_format]
  have ny: "\<not> instanceof_Error ?y"
    using config_thrown [OF y] by (rule conjunct2)
  show ?thesis
    by (intro conjI) (fact v f t x nx f' n' s c y ny)+
qed

text \<open>
  C10 as stated has every thrown value carry the original cause. When \<open>fetchProjects\<close>
  rejects with a value that is not an \<open>Error\<close> (here a string), the thrown object has no
  cause and does not mention the rejection. The same happens to a failed configuration
  check inside \<open>generateReport\<close>: \<open>validateConfig\<close> throws the literal with its cause, and
  the literal, caught by \<open>generateReport\<close>, is not an \<open>Error\<close>.
\<close>

theorem thrown_value_without_cause:
  "client_fetchProjects fetch_rejects_with_string = Inl (NonError (JStr ''timeout'')) \<and>
   snd (generateReport example_platform fetch_rejects_with_string example_clock example_config) =
     Inl (ReportErrorLiteral ''ReportError'' ''Error in generate phase: Unknown error occurred''
            Generate None) \<and>
   validateConfig example_platform no_base_url =
     Inl (ReportErrorLiteral ''ReportError'' ''Error in config phase: SonarQube baseUrl is required''
            Config (Some ''SonarQube baseUrl is required'')) \<and>
   snd (generateReport example_platform example_deps example_clock no_base_url) =
     Inl (ReportErrorLiteral ''ReportError'' ''Error in generate phase: Unknown error occurred''
            Generate None)"
  by (simp add: string_rejection_run no_base_url_run) (simp add: fetch_rejects_with_string_def)


lemma validateConfig_filters [simp]:
  "validateConfig js (config\<lparr>filters := fs\<rparr>) = validateConfig js config"
  by (simp add: validateConfig_def validateConfig_try_def)

lemma classifyFrom_events:
  "classifyFrom deps cc i n ps = (evs, r) \<Longrightarrow> map (event_with_filters fs) evs = evs"
proof (induction ps arbitrary: i evs r)
  case Nil
  then show ?case by simp
next
  case (Cons p ps)
  show ?case
  proof (cases "classifier_classify deps (JNum (coveragePercent p)) (threshold cc)")
    case (Inl e)
    with Cons.prems show ?thesis by simp
  next
    case (Inr c)
    obtain evs' r' where rest: "classifyFrom deps cc (i + 1) n ps = (evs', r')"
      by (cases "classifyFrom deps cc (i + 1) n ps")
    from Cons.IH [OF rest] have "map (event_with_filters fs) evs' = evs'" .
    with Cons.prems Inr rest show ?thesis
      by (cases r') (auto simp: Let_def)
  qed
qed

lemma classifyProjects_events:
  "classifyProjects deps ps cc = (evs, r) \<Longrightarrow> map (event_with_filters fs) evs = evs"
  unfolding classifyProjects_def by (rule classifyFrom_events)

text \<open>
  C9. \<open>generateReport\<close> filters with the strategies injected at construction;
  \<open>config.filters\<close> is never read. A run with the filters of the configuration replaced
  makes the same calls, filters to the same collection and ends in the same error or the
  same report: the only difference is the configuration object that the result echoes in
  its metadata.
\<close>

theorem config_filters_never_read:
  "generateReport js deps clock (config\<lparr>filters := fs\<rparr>) =
     outcome_with_filters fs (generateReport js deps clock config) \<and>
   reported_csv (snd (generateReport js deps clock (config\<lparr>filters := fs\<rparr>))) =
     reported_csv (snd (generateReport js deps clock config)) \<and>
   map_sum id (\<lambda>r. (projectCount r, categoryCounts r))
       (snd (generateReport js deps clock (config\<lparr>filters := fs\<rparr>))) =
     map_sum id (\<lambda>r. (projectCount r, categoryCounts r))
       (snd (generateReport js deps clock config))"
proof -
  have main: "generateReport js deps clock (config\<lparr>filters := fs\<rparr>) =
     outcome_with_filters fs (generateReport js deps clock config)"
    by (auto simp: generateReport_def generateReport_try_def Let_def result_with_filters_def
        classifyProjects_events
        split: sum.splits prod.splits option.splits)
  obtain evs out where o: "generateReport js deps clock config = (evs, out)"
    by (cases "generateReport js deps clock config")
  show ?thesis
    unfolding main o by (cases out) (simp_all add: result_with_filters_def)
qed

theorem config_filters_never_read_witness:
  "reported_csv (snd (generateReport example_platform example_deps example_clock
      (example_config\<lparr>filters := Some [coverageBelow 10]\<rparr>))) =
     Some (''repository,coverage_percent,category'' @ [CHR 0x0D, CHR 0x0A] @
         ''fe-core,80.00,Si pasa el m'' @ [CHR 0xED] @ ''nimo esperado'')"
proof -
  from config_filters_never_read [where js = example_platform and deps = example_deps
      and clock = example_clock and config = example_config and fs = "Some [coverageBelow 10]"]
  have "reported_csv (snd (generateReport example_platform example_deps example_clock
      (example_config\<lparr>filters := Some [coverageBelow 10]\<rparr>))) =
    reported_csv (snd (generateReport example_platform example_deps example_clock example_config))"
    by blast
  then show ?thesis by (simp add: example_run)
qed

end
